theory Spec2Isabelle
  imports Main
begin

section \<open>Go strings and maps\<close>

text \<open>
  A Go \<open>string\<close> is a \<^typ>\<open>string\<close>, a Go \<open>map[string]string\<close> is a partial function, and
  a map that may be \<open>nil\<close> (the label map of an object, the options of a mount) is an
  \<open>option\<close> of one. An \<open>error\<close> is modelled by its message, which is all the code reads
  of it (\<open>err.Error()\<close>).
\<close>

type_synonym error = string

type_synonym labels = "(string \<rightharpoonup> string) option"

text \<open>\<open>m[k]\<close> on a Go map: the zero value \<open>""\<close> when the key is absent.\<close>

definition index :: "(string \<rightharpoonup> string) \<Rightarrow> string \<Rightarrow> string" where
  "index m k = (case m k of None \<Rightarrow> [] | Some v \<Rightarrow> v)"

text \<open>\<open>strings.HasPrefix\<close> and \<open>strings.Contains\<close>.\<close>

fun HasPrefix :: "string \<Rightarrow> string \<Rightarrow> bool" where
  "HasPrefix s [] = True"
| "HasPrefix [] (p # ps) = False"
| "HasPrefix (c # cs) (p # ps) = (c = p \<and> HasPrefix cs ps)"

fun Contains :: "string \<Rightarrow> string \<Rightarrow> bool" where
  "Contains [] substr = (substr = [])"
| "Contains (c # cs) substr = (HasPrefix (c # cs) substr \<or> Contains cs substr)"

text \<open>
  \<open>strings.SplitN(s, "=", 2)\<close>: the text before the first \<open>=\<close> and the text after it, or
  the whole string alone when it has no \<open>=\<close>.
\<close>

definition SplitN2 :: "string \<Rightarrow> string list" where
  "SplitN2 s =
     (case dropWhile (\<lambda>c. c \<noteq> CHR ''='') s of
        [] \<Rightarrow> [s]
      | _ # rest \<Rightarrow> [takeWhile (\<lambda>c. c \<noteq> CHR ''='') s, rest])"


section \<open>Registry objects\<close>

text \<open>
  \<open>BMCSecret\<close> and \<open>BMC\<close> both embed the object metadata; a nil \<open>*string\<close> is \<open>None\<close>, and
  \<open>EndpointRef\<close> is the name of the referenced endpoint when the reference is set.
\<close>

record ObjectMeta =
  Name :: string
  Labels :: labels
  Generation :: int
  DeletionTimestamp :: "nat option"
  Finalizers :: "string list"

record BMCSpec =
  BMCSecretRef :: string
  Hostname :: "string option"
  EndpointRef :: "string option"

record BMC = ObjectMeta +
  Spec :: BMCSpec

record BMCSecret = ObjectMeta +
  Data :: "string \<rightharpoonup> string"


section \<open>bmcresolver\<close>

definition ExtractRegionFromBMC :: "BMC \<Rightarrow> string \<Rightarrow> string" where
  "ExtractRegionFromBMC bmc regionLabelKey =
     (case Labels bmc of
        None \<Rightarrow> ''unknown''
      | Some ls \<Rightarrow>
          (case ls regionLabelKey of
             None \<Rightarrow> ''unknown''
           | Some region \<Rightarrow> if region = [] then ''unknown'' else region))"

definition GetHostnameFromBMC :: "BMC \<Rightarrow> string" where
  "GetHostnameFromBMC bmc =
     (if BMCSpec.Hostname (Spec bmc) \<noteq> None \<and> the (BMCSpec.Hostname (Spec bmc)) \<noteq> []
      then the (BMCSpec.Hostname (Spec bmc))
      else if EndpointRef (Spec bmc) \<noteq> None \<and> the (EndpointRef (Spec bmc)) \<noteq> []
      then the (EndpointRef (Spec bmc))
      else Name bmc)"

text \<open>
  The spec's wording of the hostname rule, to compare with the code: the first non-empty
  string of a list of candidates, the last candidate when all are empty. An unset
  optional field counts as empty.
\<close>

fun spec_first_non_empty :: "string list \<Rightarrow> string" where
  "spec_first_non_empty [] = []"
| "spec_first_non_empty [s] = s"
| "spec_first_non_empty (s # t # ss) = (if s \<noteq> [] then s else spec_first_non_empty (t # ss))"

definition or_empty :: "string option \<Rightarrow> string" where
  "or_empty p = (case p of None \<Rightarrow> [] | Some s \<Rightarrow> s)"


section \<open>Path templates\<close>

text \<open>
  A \<open>PathBuilder\<close> holds a compiled template; \<open>Build\<close> executes it on the variables and
  returns the rendered path or the template engine's error. The template engine is a
  library, so a builder is taken as the function that \<open>Build\<close> computes; \<open>NewPathBuilder\<close>
  (template parsing) is a parameter where it is called.
\<close>

record PathVariables =
  Region :: string
  Hostname :: string
  Username :: string

type_synonym PathBuilder = "PathVariables \<Rightarrow> error + string"

text \<open>The default template \<open>bmc/{{.Region}}/{{.Hostname}}/{{.Username}}\<close>, rendered.\<close>

definition defaultTemplate :: PathBuilder where
  "defaultTemplate vars =
     Inr (''bmc/'' @ Region vars @ ''/'' @ PathVariables.Hostname vars @ ''/'' @ Username vars)"


section \<open>The secret store interface\<close>

text \<open>
  A value of Go's \<open>any\<close> in a secret is a string or something else. A \<open>Backend\<close> is an
  interface; its implementations talk to a remote store, so every operation takes the
  state of the remote stores and returns its result with the new state.
\<close>

datatype val = VString string | VOther

type_synonym SecretData = "string \<rightharpoonup> val"

record 's Backend =
  WriteSecret :: "string \<Rightarrow> SecretData \<Rightarrow> 's \<Rightarrow> error option \<times> 's"
  ReadSecret :: "string \<Rightarrow> 's \<Rightarrow> (error + SecretData) \<times> 's"
  DeleteSecret :: "string \<Rightarrow> 's \<Rightarrow> error option \<times> 's"
  SecretExists :: "string \<Rightarrow> 's \<Rightarrow> (error + bool) \<times> 's"
  Close :: "'s \<Rightarrow> error option \<times> 's"


section \<open>Engine routing (multi_engine.go)\<close>

record SecretEngineConfig =
  Name :: string
  MountPath :: string
  PathTemplate :: string
  SyncLabel :: string

record 's EngineBackend =
  Backend :: "'s Backend"
  EngineName :: string
  PathBuilder :: PathBuilder
  SyncLabel :: string
  SyncLabelKey :: string
  SyncLabelVal :: string

definition MatchesLabels :: "'s EngineBackend \<Rightarrow> labels \<Rightarrow> bool" where
  "MatchesLabels e ls =
     (case ls of
        None \<Rightarrow> False
      | Some m \<Rightarrow>
          if SyncLabelVal e = [] then m (SyncLabelKey e) \<noteq> None
          else m (SyncLabelKey e) \<noteq> None \<and> index m (SyncLabelKey e) = SyncLabelVal e)"

definition parseSyncLabel :: "string \<Rightarrow> string \<times> string" where
  "parseSyncLabel syncLabel =
     (let parts = SplitN2 syncLabel
      in if length parts = 2 then (parts ! 0, parts ! 1) else (parts ! 0, []))"

text \<open>
  \<open>parseSecretEngineConfig\<close>: one engine backend per configured engine, in order, the
  first failure aborting. Creating the Vault backend of a mount and compiling a template
  are the parameters \<open>newBackend\<close> and \<open>NewPathBuilder\<close>.
\<close>

fun parseSecretEngineConfig ::
  "(string \<Rightarrow> error + 's Backend) \<Rightarrow> (string \<Rightarrow> error + PathBuilder) \<Rightarrow>
   SecretEngineConfig list \<Rightarrow> error + 's EngineBackend list" where
  "parseSecretEngineConfig newBackend NewPathBuilder [] = Inr []"
| "parseSecretEngineConfig newBackend NewPathBuilder (engine # engines) =
     (case newBackend (MountPath engine) of
        Inl err \<Rightarrow>
          Inl (''failed to create backend for engine '' @ SecretEngineConfig.Name engine @ '': '' @ err)
      | Inr backend \<Rightarrow>
          (let (syncLabelKey, syncLabelVal) = parseSyncLabel (SecretEngineConfig.SyncLabel engine);
               pathTemplate =
                 (if PathTemplate engine = []
                  then ''bmc/{{.Region}}/{{.Hostname}}/{{.Username}}''
                  else PathTemplate engine)
           in case NewPathBuilder pathTemplate of
                Inl err \<Rightarrow>
                  Inl (''failed to create path builder for engine '' @
                       SecretEngineConfig.Name engine @ '': '' @ err)
              | Inr pathBuilder \<Rightarrow>
                  (case parseSecretEngineConfig newBackend NewPathBuilder engines of
                     Inl err \<Rightarrow> Inl err
                   | Inr engineBackends \<Rightarrow>
                       Inr (\<lparr>Backend = backend,
                             EngineName = SecretEngineConfig.Name engine,
                             PathBuilder = pathBuilder,
                             SyncLabel = SecretEngineConfig.SyncLabel engine,
                             SyncLabelKey = syncLabelKey,
                             SyncLabelVal = syncLabelVal\<rparr> # engineBackends))))"



section \<open>The Vault store (vault.go)\<close>

text \<open>
  The Vault API client is a library: it is modelled by what its calls return. A read
  returns an error, or a pointer to a secret that may be nil and whose \<open>Data\<close> may be
  nil (\<open>None\<close> and \<open>Some None\<close>); \<open>ListMounts\<close> returns the mount table.
\<close>

record MountOutput =
  Type :: string
  Options :: "(string \<rightharpoonup> string) option"

record VaultClient =
  KVv2Get :: "string \<Rightarrow> string \<Rightarrow> error + SecretData option option"
  LogicalRead :: "string \<Rightarrow> error + SecretData option option"
  ListMounts :: "error + (string \<rightharpoonup> MountOutput)"

record VaultBackend =
  client :: VaultClient
  mountPath :: string
  isKVv2 :: bool

definition buildPath :: "VaultBackend \<Rightarrow> string \<Rightarrow> string" where
  "buildPath v path =
     (if isKVv2 v then mountPath v @ ''/data/'' @ path else mountPath v @ ''/'' @ path)"

definition detectKVVersion :: "VaultBackend \<Rightarrow> error + VaultBackend" where
  "detectKVVersion v =
     (case ListMounts (client v) of
        Inl err \<Rightarrow> Inl (''failed to list mounts: '' @ err)
      | Inr mounts \<Rightarrow>
          (case mounts (mountPath v @ ''/'') of
             None \<Rightarrow> Inl (''mount '' @ mountPath v @ '' not found'')
           | Some mount \<Rightarrow>
               if Options mount \<noteq> None \<and> index (the (Options mount)) ''version'' = ''2''
               then Inr (v\<lparr>isKVv2 := True\<rparr>)
               else if Options mount \<noteq> None \<and> index (the (Options mount)) ''version'' = ''1''
               then Inr (v\<lparr>isKVv2 := False\<rparr>)
               else Inr (v\<lparr>isKVv2 := (Type mount = ''kv'' \<or> Type mount = ''generic'')\<rparr>)))"

text \<open>The mount's declared \<open>version\<close> option, when it has one.\<close>

definition versionOption :: "MountOutput \<Rightarrow> string option" where
  "versionOption mount = (case Options mount of None \<Rightarrow> None | Some opts \<Rightarrow> opts ''version'')"

definition VaultBackend_ReadSecret :: "VaultBackend \<Rightarrow> string \<Rightarrow> error + SecretData" where
  "VaultBackend_ReadSecret v path =
     (let fullPath = buildPath v path
      in if isKVv2 v
         then (case KVv2Get (client v) (mountPath v) path of
                 Inl err \<Rightarrow> Inl (''failed to read secret from vault at '' @ fullPath @ '': '' @ err)
               | Inr secret \<Rightarrow>
                   if secret = None \<or> the secret = None
                   then Inl (''secret not found at '' @ fullPath)
                   else Inr (the (the secret)))
         else (case LogicalRead (client v) fullPath of
                 Inl err \<Rightarrow> Inl (''failed to read secret from vault at '' @ fullPath @ '': '' @ err)
               | Inr logicalSecret \<Rightarrow>
                   if logicalSecret = None \<or> the logicalSecret = None
                   then Inl (''secret not found at '' @ fullPath)
                   else Inr (the (the logicalSecret))))"

definition VaultBackend_SecretExists :: "VaultBackend \<Rightarrow> string \<Rightarrow> error + bool" where
  "VaultBackend_SecretExists v path =
     (case VaultBackend_ReadSecret v path of
        Inl err \<Rightarrow> if Contains err ''secret not found'' then Inr False else Inl err
      | Inr _ \<Rightarrow> Inr True)"

text \<open>
  The read finds no secret at the path. The KV v2 client reports a missing secret by its
  own error, whose text starts with \<open>secret not found\<close> (\<open>ErrSecretNotFound\<close>, followed by
  the place); the logical client returns no secret. \<open>ReadSecret\<close> has its own branch for a
  nil secret or nil data.
\<close>

definition clientNotFound :: "error \<Rightarrow> bool" where
  "clientNotFound err = HasPrefix err ''secret not found''"

definition readNotFound :: "VaultBackend \<Rightarrow> string \<Rightarrow> bool" where
  "readNotFound v path =
     (if isKVv2 v
      then (case KVv2Get (client v) (mountPath v) path of
              Inl err \<Rightarrow> clientNotFound err
            | Inr None \<Rightarrow> True
            | Inr (Some None) \<Rightarrow> True
            | Inr (Some (Some d)) \<Rightarrow> False)
      else (case LogicalRead (client v) (buildPath v path) of
              Inl err \<Rightarrow> False
            | Inr None \<Rightarrow> True
            | Inr (Some None) \<Rightarrow> True
            | Inr (Some (Some d)) \<Rightarrow> False))"


section \<open>The backend factory's cache (factory.go)\<close>

record VaultConfigInternal =
  Address :: string
  AuthMethod :: string
  KubernetesAuthRole :: string
  KubernetesAuthPath :: string
  Token :: string
  MountPath :: string
  SkipVerify :: bool
  CACert :: string

record Config =
  Backend :: string
  VaultConfig :: "VaultConfigInternal option"
  PathTemplate :: string
  RegionLabelKey :: string
  SyncLabel :: string

text \<open>
  The cached fields of \<open>BackendFactory\<close>; a nil pointer is \<open>None\<close> and the nil slice of
  engine backends is the empty list (the factory never stores an empty non-nil slice).
  The lock is not modelled: every method holds it for its whole body.
\<close>

record 's BackendFactory =
  backend :: "'s Backend option"
  pathBuilder :: "PathBuilder option"
  config :: "Config option"
  engineBackends :: "'s EngineBackend list"

text \<open>
  The loop of \<open>InvalidateCache\<close> over the engine backends: the first failing close
  returns. An engine backend always has a backend, so the loop's nil test is left out.
\<close>

fun closeEngineBackends :: "'s EngineBackend list \<Rightarrow> 's \<Rightarrow> error option \<times> 's" where
  "closeEngineBackends [] s = (None, s)"
| "closeEngineBackends (eb # ebs) s =
     (case Close (EngineBackend.Backend eb) s of
        (Some err, s') \<Rightarrow>
          (Some (''failed to close engine backend '' @ EngineName eb @ '': '' @ err), s')
      | (None, s') \<Rightarrow> closeEngineBackends ebs s')"

definition InvalidateCache :: "'s BackendFactory \<Rightarrow> 's \<Rightarrow> error option \<times> 's BackendFactory \<times> 's" where
  "InvalidateCache f s =
     (case (case backend f of
              None \<Rightarrow> (None, f, s)
            | Some b \<Rightarrow>
                (case Close b s of
                   (Some err, s') \<Rightarrow>
                     (Some (''failed to close backend during cache invalidation: '' @ err), f, s')
                 | (None, s') \<Rightarrow> (None, f\<lparr>backend := None\<rparr>, s'))) of
        (Some err, f', s') \<Rightarrow> (Some err, f', s')
      | (None, f', s') \<Rightarrow>
          (case closeEngineBackends (engineBackends f') s' of
             (Some err, s'') \<Rightarrow> (Some err, f', s'')
           | (None, s'') \<Rightarrow>
               (None, f'\<lparr>engineBackends := [], config := None, pathBuilder := None\<rparr>, s'')))"


section \<open>The sync status resource\<close>

record BackendPath =
  Path :: string
  BMCName :: string
  Region :: string
  Hostname :: string
  Username :: string
  LastSyncTime :: nat
  SyncStatus :: string
  ErrorMessage :: string

record Condition =
  Type :: string
  Status :: string
  ObservedGeneration :: int
  LastTransitionTime :: nat
  Reason :: string
  Message :: string

record BMCSecretSyncStatusStatus =
  BackendPaths :: "BackendPath list"
  LastSyncAttempt :: nat
  TotalPaths :: int
  SuccessfulPaths :: int
  FailedPaths :: int
  Conditions :: "Condition list"

record BMCSecretSyncStatus = ObjectMeta +
  SpecBMCSecretRef :: string
  Status :: BMCSecretSyncStatusStatus

text \<open>\<open>%d\<close> of \<open>fmt.Sprintf\<close>.\<close>

fun digits :: "nat \<Rightarrow> string" where
  "digits n =
     (if n < 10 then [char_of (48 + n)] else digits (n div 10) @ [char_of (48 + n mod 10)])"

definition itoa :: "int \<Rightarrow> string" where
  "itoa i = (if i < 0 then CHR ''-'' # digits (nat (- i)) else digits (nat i))"


section \<open>The registry client\<close>

text \<open>
  The registry as the controller's client sees it: the credential records, the device
  records, the sync status records, and for each kind of request the error it fails
  with, if it fails. A \<open>Get\<close> finds the object of a name, reports that there is none, or
  fails otherwise; an update or a delete of an object that is not there fails, and so
  does the creation of one that is. What the registry does on its own with a record
  that is marked deleted and has no finalizer left (it removes it) is not modelled.
\<close>

datatype ClientOp =
  GetBMCSecret | UpdateBMCSecret | ListBMC
  | GetSyncStatus | CreateSyncStatus | UpdateSyncStatus | DeleteSyncStatus

record Cluster =
  bmcSecrets :: "BMCSecret list"
  bmcList :: "BMC list"
  syncStatuses :: "BMCSecretSyncStatus list"
  clientErr :: "ClientOp \<Rightarrow> error option"

datatype 'a got = Found 'a | NotFound | GetFailed error

text \<open>
  Objects of a kind are kept by name: looking one up, replacing the one of the same name,
  and removing it.
\<close>

definition getByName :: "'a ObjectMeta_scheme list \<Rightarrow> string \<Rightarrow> 'a ObjectMeta_scheme option" where
  "getByName objs name = find (\<lambda>obj. ObjectMeta.Name obj = name) objs"

definition putByName :: "'a ObjectMeta_scheme \<Rightarrow> 'a ObjectMeta_scheme list \<Rightarrow> 'a ObjectMeta_scheme list" where
  "putByName obj objs =
     map (\<lambda>old. if ObjectMeta.Name old = ObjectMeta.Name obj then obj else old) objs"

definition removeByName :: "string \<Rightarrow> 'a ObjectMeta_scheme list \<Rightarrow> 'a ObjectMeta_scheme list" where
  "removeByName name objs = filter (\<lambda>obj. ObjectMeta.Name obj \<noteq> name) objs"

definition getBMCSecret :: "Cluster \<Rightarrow> string \<Rightarrow> BMCSecret got" where
  "getBMCSecret c name =
     (case clientErr c GetBMCSecret of
        Some err \<Rightarrow> GetFailed err
      | None \<Rightarrow> (case getByName (bmcSecrets c) name of None \<Rightarrow> NotFound | Some obj \<Rightarrow> Found obj))"

definition updateBMCSecret :: "Cluster \<Rightarrow> BMCSecret \<Rightarrow> error option \<times> Cluster" where
  "updateBMCSecret c obj =
     (case clientErr c UpdateBMCSecret of
        Some err \<Rightarrow> (Some err, c)
      | None \<Rightarrow>
          (case getByName (bmcSecrets c) (ObjectMeta.Name obj) of
             None \<Rightarrow> (Some ''not found'', c)
           | Some old \<Rightarrow> (None, c\<lparr>bmcSecrets := putByName obj (bmcSecrets c)\<rparr>)))"

definition getSyncStatus :: "Cluster \<Rightarrow> string \<Rightarrow> BMCSecretSyncStatus got" where
  "getSyncStatus c name =
     (case clientErr c GetSyncStatus of
        Some err \<Rightarrow> GetFailed err
      | None \<Rightarrow> (case getByName (syncStatuses c) name of None \<Rightarrow> NotFound | Some obj \<Rightarrow> Found obj))"

definition createSyncStatus :: "Cluster \<Rightarrow> BMCSecretSyncStatus \<Rightarrow> error option \<times> Cluster" where
  "createSyncStatus c obj =
     (case clientErr c CreateSyncStatus of
        Some err \<Rightarrow> (Some err, c)
      | None \<Rightarrow>
          (case getByName (syncStatuses c) (ObjectMeta.Name obj) of
             Some old \<Rightarrow> (Some ''already exists'', c)
           | None \<Rightarrow> (None, c\<lparr>syncStatuses := syncStatuses c @ [obj]\<rparr>)))"

definition updateSyncStatusStatus :: "Cluster \<Rightarrow> BMCSecretSyncStatus \<Rightarrow> error option \<times> Cluster" where
  "updateSyncStatusStatus c obj =
     (case clientErr c UpdateSyncStatus of
        Some err \<Rightarrow> (Some err, c)
      | None \<Rightarrow>
          (case getByName (syncStatuses c) (ObjectMeta.Name obj) of
             None \<Rightarrow> (Some ''not found'', c)
           | Some old \<Rightarrow> (None, c\<lparr>syncStatuses := putByName obj (syncStatuses c)\<rparr>)))"

definition deleteSyncStatus :: "Cluster \<Rightarrow> BMCSecretSyncStatus \<Rightarrow> error option \<times> Cluster" where
  "deleteSyncStatus c obj =
     (case clientErr c DeleteSyncStatus of
        Some err \<Rightarrow> (Some err, c)
      | None \<Rightarrow>
          (case getByName (syncStatuses c) (ObjectMeta.Name obj) of
             None \<Rightarrow> (Some ''not found'', c)
           | Some old \<Rightarrow>
               (None, c\<lparr>syncStatuses := removeByName (ObjectMeta.Name obj) (syncStatuses c)\<rparr>)))"

definition FindBMCsForSecret :: "Cluster \<Rightarrow> string \<Rightarrow> error + BMC list" where
  "FindBMCsForSecret c secretName =
     (case clientErr c ListBMC of
        Some err \<Rightarrow> Inl (''failed to list BMC resources: '' @ err)
      | None \<Rightarrow> Inr (filter (\<lambda>bmc. BMCSecretRef (Spec bmc) = secretName) (bmcList c)))"


section \<open>The reconciler (bmcsecret_controller.go)\<close>

text \<open>
  The reconciler reaches its backend factory through \<open>BackendFactoryInterface\<close>; within
  one pass each getter is taken by its result. \<open>ExtractCredentials\<close> (bmcresolver) is a
  parameter, and \<open>Now\<close> is the clock reading of the pass. Logging and metrics calls are
  left out; a recorded event is kept as its type and reason.
\<close>

record 's BackendFactoryInterface =
  GetBackend :: "error + 's Backend"
  GetPathBuilder :: "error + PathBuilder"
  GetRegionLabelKey :: "error + string"
  GetSyncLabel :: "error + string"
  GetEngineBackends :: "labels \<Rightarrow> error + 's EngineBackend list"
  HasMultiEngineConfig :: "error + bool"

record 's BMCSecretReconciler =
  BackendFactory :: "'s BackendFactoryInterface"
  ExtractCredentials :: "BMCSecret \<Rightarrow> error + string \<times> string"
  Now :: nat

text \<open>
  What a pass acts on: the registry, the remote stores, and the two logs that make its
  effects countable, the calls issued to stores (each with its result) and the events
  recorded.
\<close>

datatype Call =
  ExistsCall string "error + bool"
  | ReadCall string "error + SecretData"
  | WriteCall string SecretData "error option"
  | DeleteCall string "error option"

record 's World =
  cluster :: Cluster
  stores :: 's
  calls :: "Call list"
  events :: "(string \<times> string) list"

record Result =
  RequeueAfter :: nat

definition bmcSecretFinalizer :: string where
  "bmcSecretFinalizer = ''bmcsecret.metal.ironcore.dev/backend-cleanup''"

definition requeueAfterNormal :: nat where
  "requeueAfterNormal = 5 * 60"

definition requeueAfterError :: nat where
  "requeueAfterError = 30"

definition Event :: "string \<Rightarrow> string \<Rightarrow> 's World \<Rightarrow> 's World" where
  "Event eventtype reason w = w\<lparr>events := events w @ [(eventtype, reason)]\<rparr>"

definition needsUpdate :: "'s Backend \<Rightarrow> string \<Rightarrow> string \<Rightarrow> 's World \<Rightarrow> (error + bool) \<times> 's World" where
  "needsUpdate be path password w =
     (case SecretExists be path (stores w) of
        (Inl err, s1) \<Rightarrow> (Inl err, w\<lparr>stores := s1, calls := calls w @ [ExistsCall path (Inl err)]\<rparr>)
      | (Inr exists, s1) \<Rightarrow>
          (let w1 = w\<lparr>stores := s1, calls := calls w @ [ExistsCall path (Inr exists)]\<rparr>
           in if \<not> exists then (Inr True, w1)
              else (case ReadSecret be path s1 of
                      (Inl err, s2) \<Rightarrow>
                        (Inl err, w1\<lparr>stores := s2, calls := calls w1 @ [ReadCall path (Inl err)]\<rparr>)
                    | (Inr currentData, s2) \<Rightarrow>
                        (let w2 = w1\<lparr>stores := s2,
                                      calls := calls w1 @ [ReadCall path (Inr currentData)]\<rparr>
                         in case currentData ''password'' of
                              Some (VString currentPassword) \<Rightarrow> (Inr (currentPassword \<noteq> password), w2)
                            | _ \<Rightarrow> (Inr True, w2)))))"

text \<open>The loop variables of a sync pass, with the world the loop body acts on.\<close>

record 's SyncLoop =
  syncErrors :: int
  syncSuccess :: int
  backendPaths :: "BackendPath list"
  world :: "'s World"

text \<open>
  The body of the loop over the devices. \<open>reconcileSingleEngine\<close> and
  \<open>reconcileMultiEngine\<close> have the same body; the second prefixes the error message of an
  entry with the engine's name, so the body takes the engine name when there is one.
\<close>

definition errorMessage :: "string option \<Rightarrow> error \<Rightarrow> string" where
  "errorMessage engine err =
     (case engine of None \<Rightarrow> err | Some engineName \<Rightarrow> ''['' @ engineName @ ''] '' @ err)"

definition syncBMC ::
  "'s Backend \<Rightarrow> PathBuilder \<Rightarrow> string option \<Rightarrow> string \<Rightarrow> string \<Rightarrow> string \<Rightarrow> nat \<Rightarrow>
   BMC \<Rightarrow> 's SyncLoop \<Rightarrow> 's SyncLoop" where
  "syncBMC be pb engine regionLabelKey username password syncTime bmc l =
     (let region = ExtractRegionFromBMC bmc regionLabelKey;
          hostname = GetHostnameFromBMC bmc;
          entry = (\<lambda>path status msg.
            \<lparr>Path = path, BMCName = ObjectMeta.Name bmc, Region = region, Hostname = hostname,
             Username = username, LastSyncTime = syncTime, SyncStatus = status,
             ErrorMessage = msg\<rparr>)
      in case pb \<lparr>PathVariables.Region = region, PathVariables.Hostname = hostname,
                   PathVariables.Username = username\<rparr> of
           Inl err \<Rightarrow>
             l\<lparr>backendPaths := backendPaths l @ [entry [] ''Failed'' (errorMessage engine err)],
               syncErrors := syncErrors l + 1\<rparr>
         | Inr path \<Rightarrow>
             (case needsUpdate be path password (world l) of
                (Inl err, w1) \<Rightarrow>
                  l\<lparr>backendPaths := backendPaths l @ [entry path ''Failed'' (errorMessage engine err)],
                    syncErrors := syncErrors l + 1, world := w1\<rparr>
              | (Inr False, w1) \<Rightarrow>
                  l\<lparr>backendPaths := backendPaths l @ [entry path ''Success'' []],
                    syncSuccess := syncSuccess l + 1, world := w1\<rparr>
              | (Inr True, w1) \<Rightarrow>
                  (let secretData = [''username'' \<mapsto> VString username, ''password'' \<mapsto> VString password]
                   in case WriteSecret be path secretData (stores w1) of
                        (Some err, s2) \<Rightarrow>
                          l\<lparr>backendPaths :=
                              backendPaths l @ [entry path ''Failed'' (errorMessage engine err)],
                            syncErrors := syncErrors l + 1,
                            world := Event ''Warning'' ''SyncFailed''
                              (w1\<lparr>stores := s2,
                                  calls := calls w1 @ [WriteCall path secretData (Some err)]\<rparr>)\<rparr>
                      | (None, s2) \<Rightarrow>
                          l\<lparr>backendPaths := backendPaths l @ [entry path ''Success'' []],
                            syncSuccess := syncSuccess l + 1,
                            world := w1\<lparr>stores := s2,
                                        calls := calls w1 @ [WriteCall path secretData None]\<rparr>\<rparr>)))"

fun syncBMCs ::
  "'s Backend \<Rightarrow> PathBuilder \<Rightarrow> string option \<Rightarrow> string \<Rightarrow> string \<Rightarrow> string \<Rightarrow> nat \<Rightarrow>
   BMC list \<Rightarrow> 's SyncLoop \<Rightarrow> 's SyncLoop" where
  "syncBMCs be pb engine regionLabelKey username password syncTime [] l = l"
| "syncBMCs be pb engine regionLabelKey username password syncTime (bmc # bmcs) l =
     syncBMCs be pb engine regionLabelKey username password syncTime bmcs
       (syncBMC be pb engine regionLabelKey username password syncTime bmc l)"

fun syncEngines ::
  "string \<Rightarrow> string \<Rightarrow> string \<Rightarrow> nat \<Rightarrow> BMC list \<Rightarrow> 's EngineBackend list \<Rightarrow>
   's SyncLoop \<Rightarrow> 's SyncLoop" where
  "syncEngines regionLabelKey username password syncTime bmcs [] l = l"
| "syncEngines regionLabelKey username password syncTime bmcs (eb # ebs) l =
     syncEngines regionLabelKey username password syncTime bmcs ebs
       (syncBMCs (EngineBackend.Backend eb) (PathBuilder eb)
          (Some (EngineName eb)) regionLabelKey username password syncTime bmcs l)"

fun setCondition :: "Condition list \<Rightarrow> Condition \<Rightarrow> Condition list" where
  "setCondition [] newCondition = [newCondition]"
| "setCondition (condition # conditions) newCondition =
     (if Type condition = Type newCondition
      then (if Condition.Status condition \<noteq> Condition.Status newCondition
               \<or> Reason condition \<noteq> Reason newCondition
            then newCondition # conditions
            else condition # conditions)
      else condition # setCondition conditions newCondition)"

text \<open>The condition that \<open>updateSyncStatus\<close> derives from the counts.\<close>

definition syncedCondition :: "int \<Rightarrow> nat \<Rightarrow> int \<Rightarrow> int \<Rightarrow> int \<Rightarrow> Condition" where
  "syncedCondition generation now totalPaths successfulPaths failedPaths =
     (if failedPaths = 0
      then \<lparr>Type = ''Synced'', Status = ''True'', ObservedGeneration = generation,
            LastTransitionTime = now, Reason = ''AllPathsSynced'',
            Message = ''Successfully synced to '' @ itoa successfulPaths @ '' backend paths''\<rparr>
      else if successfulPaths > 0
      then \<lparr>Type = ''Synced'', Status = ''False'', ObservedGeneration = generation,
            LastTransitionTime = now, Reason = ''PartialSync'',
            Message = ''Synced '' @ itoa successfulPaths @ ''/'' @ itoa totalPaths @ '' paths, ''
                      @ itoa failedPaths @ '' failed''\<rparr>
      else \<lparr>Type = ''Synced'', Status = ''False'', ObservedGeneration = generation,
            LastTransitionTime = now, Reason = ''SyncFailed'',
            Message = ''Failed to sync to '' @ itoa failedPaths @ '' paths''\<rparr>)"

definition updateSyncStatus ::
  "nat \<Rightarrow> string \<Rightarrow> BackendPath list \<Rightarrow> int \<Rightarrow> int \<Rightarrow> int \<Rightarrow> Cluster \<Rightarrow> error option \<times> Cluster" where
  "updateSyncStatus now bmcSecretName paths totalPaths successfulPaths failedPaths c =
     (let syncStatusName = bmcSecretName @ ''-sync-status'';
          fetched =
            (case getSyncStatus c syncStatusName of
               GetFailed err \<Rightarrow> (Inl err, c)
             | Found syncStatus \<Rightarrow> (Inr syncStatus, c)
             | NotFound \<Rightarrow>
                 (case createSyncStatus c
                         \<lparr>ObjectMeta.Name = syncStatusName, Labels = None, Generation = 0,
                          DeletionTimestamp = None, Finalizers = [],
                          SpecBMCSecretRef = bmcSecretName,
                          Status = \<lparr>BackendPaths = [], LastSyncAttempt = 0, TotalPaths = 0,
                                    SuccessfulPaths = 0, FailedPaths = 0, Conditions = []\<rparr>\<rparr> of
                    (Some err, c1) \<Rightarrow> (Inl err, c1)
                  | (None, c1) \<Rightarrow>
                      (case getSyncStatus c1 syncStatusName of
                         Found syncStatus \<Rightarrow> (Inr syncStatus, c1)
                       | NotFound \<Rightarrow> (Inl ''not found'', c1)
                       | GetFailed err \<Rightarrow> (Inl err, c1))))
      in case fetched of
           (Inl err, c1) \<Rightarrow> (Some err, c1)
         | (Inr syncStatus, c1) \<Rightarrow>
             updateSyncStatusStatus c1
               (syncStatus\<lparr>Status :=
                  \<lparr>BackendPaths = paths, LastSyncAttempt = now, TotalPaths = totalPaths,
                   SuccessfulPaths = successfulPaths, FailedPaths = failedPaths,
                   Conditions =
                     setCondition (Conditions (Status syncStatus))
                       (syncedCondition (Generation syncStatus) now
                          totalPaths successfulPaths failedPaths)\<rparr>\<rparr>))"


definition reconcileSingleEngine ::
  "'s BMCSecretReconciler \<Rightarrow> BMCSecret \<Rightarrow> BMC list \<Rightarrow> string \<Rightarrow> string \<Rightarrow> 's World \<Rightarrow>
   (Result \<times> error option) \<times> 's World" where
  "reconcileSingleEngine r bmcSecret bmcs username password w =
     (case GetBackend (BackendFactory r) of
        Inl err \<Rightarrow>
          ((\<lparr>RequeueAfter = requeueAfterError\<rparr>, Some err), Event ''Warning'' ''BackendUnavailable'' w)
      | Inr be \<Rightarrow>
     (case GetPathBuilder (BackendFactory r) of
        Inl err \<Rightarrow> ((\<lparr>RequeueAfter = requeueAfterError\<rparr>, Some err), w)
      | Inr pb \<Rightarrow>
     (case GetRegionLabelKey (BackendFactory r) of
        Inl err \<Rightarrow> ((\<lparr>RequeueAfter = requeueAfterError\<rparr>, Some err), w)
      | Inr regionLabelKey \<Rightarrow>
          (let l = syncBMCs be pb None regionLabelKey username password (Now r) bmcs
                     \<lparr>syncErrors = 0, syncSuccess = 0, backendPaths = [], world = w\<rparr>;
               w1 = (world l)\<lparr>cluster :=
                      snd (updateSyncStatus (Now r) (ObjectMeta.Name bmcSecret) (backendPaths l)
                             (int (length bmcs)) (syncSuccess l) (syncErrors l)
                             (cluster (world l)))\<rparr>;
               w2 = (if syncErrors l > 0 then Event ''Warning'' ''PartialSync'' w1
                     else Event ''Normal'' ''Synced'' w1)
           in ((\<lparr>RequeueAfter = requeueAfterNormal\<rparr>, None), w2)))))"

definition reconcileMultiEngine ::
  "'s BMCSecretReconciler \<Rightarrow> BMCSecret \<Rightarrow> BMC list \<Rightarrow> string \<Rightarrow> string \<Rightarrow> 's World \<Rightarrow>
   (Result \<times> error option) \<times> 's World" where
  "reconcileMultiEngine r bmcSecret bmcs username password w =
     (case GetRegionLabelKey (BackendFactory r) of
        Inl err \<Rightarrow> ((\<lparr>RequeueAfter = requeueAfterError\<rparr>, Some err), w)
      | Inr regionLabelKey \<Rightarrow>
     (case GetEngineBackends (BackendFactory r) (Labels bmcSecret) of
        Inl err \<Rightarrow>
          ((\<lparr>RequeueAfter = requeueAfterError\<rparr>, Some err), Event ''Warning'' ''BackendUnavailable'' w)
      | Inr ebs \<Rightarrow>
          if length ebs = 0
          then ((\<lparr>RequeueAfter = requeueAfterNormal\<rparr>, None), Event ''Normal'' ''NoMatchingEngines'' w)
          else
            (let l = syncEngines regionLabelKey username password (Now r) bmcs ebs
                       \<lparr>syncErrors = 0, syncSuccess = 0, backendPaths = [], world = w\<rparr>;
                 w1 = (world l)\<lparr>cluster :=
                        snd (updateSyncStatus (Now r) (ObjectMeta.Name bmcSecret) (backendPaths l)
                               (int (length (backendPaths l))) (syncSuccess l) (syncErrors l)
                               (cluster (world l)))\<rparr>;
                 w2 = (if syncErrors l > 0 then Event ''Warning'' ''PartialSync'' w1
                       else Event ''Normal'' ''Synced'' w1)
             in ((\<lparr>RequeueAfter = requeueAfterNormal\<rparr>, None), w2))))"

text \<open>\<open>controllerutil\<close>: finalizers of an object.\<close>

definition ContainsFinalizer :: "BMCSecret \<Rightarrow> string \<Rightarrow> bool" where
  "ContainsFinalizer obj finalizer = (finalizer \<in> set (Finalizers obj))"

definition AddFinalizer :: "BMCSecret \<Rightarrow> string \<Rightarrow> BMCSecret" where
  "AddFinalizer obj finalizer =
     (if finalizer \<in> set (Finalizers obj) then obj
      else obj\<lparr>Finalizers := Finalizers obj @ [finalizer]\<rparr>)"

definition RemoveFinalizer :: "BMCSecret \<Rightarrow> string \<Rightarrow> BMCSecret" where
  "RemoveFinalizer obj finalizer = obj\<lparr>Finalizers := filter (\<lambda>f. f \<noteq> finalizer) (Finalizers obj)\<rparr>"

text \<open>
  Every exit of \<open>handleDeletion\<close> past the finalizer check ends the same way: remove the
  finalizer from the record, update the record in the registry, and return the update's
  error if it failed.
\<close>

definition removeFinalizerAndUpdate ::
  "BMCSecret \<Rightarrow> 's World \<Rightarrow> (Result \<times> error option) \<times> 's World" where
  "removeFinalizerAndUpdate bmcSecret w =
     (case updateBMCSecret (cluster w) (RemoveFinalizer bmcSecret bmcSecretFinalizer) of
        (Some err, c) \<Rightarrow> ((\<lparr>RequeueAfter = 0\<rparr>, Some err), w\<lparr>cluster := c\<rparr>)
      | (None, c) \<Rightarrow> ((\<lparr>RequeueAfter = 0\<rparr>, None), w\<lparr>cluster := c\<rparr>))"

text \<open>The loop of \<open>handleDeletion\<close> over the devices.\<close>

fun deleteSecrets ::
  "'s Backend \<Rightarrow> PathBuilder \<Rightarrow> string \<Rightarrow> string \<Rightarrow> BMC list \<Rightarrow> 's World \<Rightarrow> 's World" where
  "deleteSecrets be pb regionLabelKey username [] w = w"
| "deleteSecrets be pb regionLabelKey username (bmc # bmcs) w =
     deleteSecrets be pb regionLabelKey username bmcs
       (case pb \<lparr>PathVariables.Region = ExtractRegionFromBMC bmc regionLabelKey,
                 PathVariables.Hostname = GetHostnameFromBMC bmc,
                 PathVariables.Username = username\<rparr> of
          Inl err \<Rightarrow> w
        | Inr path \<Rightarrow>
            (case DeleteSecret be path (stores w) of
               (res, s1) \<Rightarrow> w\<lparr>stores := s1, calls := calls w @ [DeleteCall path res]\<rparr>))"

definition handleDeletion ::
  "'s BMCSecretReconciler \<Rightarrow> BMCSecret \<Rightarrow> 's World \<Rightarrow> (Result \<times> error option) \<times> 's World" where
  "handleDeletion r bmcSecret w =
     (if \<not> ContainsFinalizer bmcSecret bmcSecretFinalizer then ((\<lparr>RequeueAfter = 0\<rparr>, None), w)
      else
        (let syncStatusName = ObjectMeta.Name bmcSecret @ ''-sync-status'';
             w1 = (case getSyncStatus (cluster w) syncStatusName of
                     Found syncStatus \<Rightarrow>
                       w\<lparr>cluster := snd (deleteSyncStatus (cluster w) syncStatus)\<rparr>
                   | _ \<Rightarrow> w)
         in case GetBackend (BackendFactory r) of
              Inl err \<Rightarrow> removeFinalizerAndUpdate bmcSecret (Event ''Warning'' ''CleanupFailed'' w1)
            | Inr be \<Rightarrow>
           (case GetPathBuilder (BackendFactory r) of
              Inl err \<Rightarrow> removeFinalizerAndUpdate bmcSecret w1
            | Inr pb \<Rightarrow>
           (case GetRegionLabelKey (BackendFactory r) of
              Inl err \<Rightarrow> removeFinalizerAndUpdate bmcSecret w1
            | Inr regionLabelKey \<Rightarrow>
           (case ExtractCredentials r bmcSecret of
              Inl err \<Rightarrow> removeFinalizerAndUpdate bmcSecret w1
            | Inr (username, _) \<Rightarrow>
           (case FindBMCsForSecret (cluster w1) (ObjectMeta.Name bmcSecret) of
              Inl err \<Rightarrow> removeFinalizerAndUpdate bmcSecret w1
            | Inr bmcs \<Rightarrow>
                removeFinalizerAndUpdate bmcSecret
                  (deleteSecrets be pb regionLabelKey username bmcs w1)))))))"

definition Reconcile ::
  "'s BMCSecretReconciler \<Rightarrow> string \<Rightarrow> 's World \<Rightarrow> (Result \<times> error option) \<times> 's World" where
  "Reconcile r req w =
     (case getBMCSecret (cluster w) req of
        NotFound \<Rightarrow> ((\<lparr>RequeueAfter = 0\<rparr>, None), w)
      | GetFailed err \<Rightarrow> ((\<lparr>RequeueAfter = 0\<rparr>, Some err), w)
      | Found bmcSecret \<Rightarrow>
     (case GetSyncLabel (BackendFactory r) of
        Inl err \<Rightarrow> ((\<lparr>RequeueAfter = requeueAfterError\<rparr>, Some err), w)
      | Inr syncLabel \<Rightarrow>
          if syncLabel \<noteq> [] \<and>
             (Labels bmcSecret = None \<or> index (the (Labels bmcSecret)) syncLabel = [])
          then ((\<lparr>RequeueAfter = 0\<rparr>, None), w)
          else if DeletionTimestamp bmcSecret \<noteq> None then handleDeletion r bmcSecret w
          else
     (case (if \<not> ContainsFinalizer bmcSecret bmcSecretFinalizer
            then updateBMCSecret (cluster w) (AddFinalizer bmcSecret bmcSecretFinalizer)
            else (None, cluster w)) of
        (Some err, c) \<Rightarrow> ((\<lparr>RequeueAfter = 0\<rparr>, Some err), w\<lparr>cluster := c\<rparr>)
      | (None, c) \<Rightarrow>
          (let w1 = w\<lparr>cluster := c\<rparr>;
               bmcSecret1 = (if \<not> ContainsFinalizer bmcSecret bmcSecretFinalizer
                             then AddFinalizer bmcSecret bmcSecretFinalizer else bmcSecret)
           in case FindBMCsForSecret (cluster w1) (ObjectMeta.Name bmcSecret1) of
                Inl err \<Rightarrow>
                  ((\<lparr>RequeueAfter = requeueAfterError\<rparr>, Some err),
                   Event ''Warning'' ''BMCDiscoveryFailed'' w1)
              | Inr bmcs \<Rightarrow>
                  if length bmcs = 0
                  then ((\<lparr>RequeueAfter = requeueAfterNormal\<rparr>, None),
                        Event ''Normal'' ''NoBMCReference'' w1)
                  else
                    (case ExtractCredentials r bmcSecret1 of
                       Inl err \<Rightarrow>
                         ((\<lparr>RequeueAfter = requeueAfterError\<rparr>, Some err),
                          Event ''Warning'' ''MissingCredentials'' w1)
                     | Inr (username, password) \<Rightarrow>
                         (case HasMultiEngineConfig (BackendFactory r) of
                            Inl err \<Rightarrow> ((\<lparr>RequeueAfter = requeueAfterError\<rparr>, Some err), w1)
                          | Inr hasMultiEngine \<Rightarrow>
                              if hasMultiEngine
                              then reconcileMultiEngine r bmcSecret1 bmcs username password w1
                              else reconcileSingleEngine r bmcSecret1 bmcs username password w1))))))"

text \<open>
  The event filter that \<open>SetupWithManager\<close> installs: none when no sync label is
  configured, else the label predicate.
\<close>

definition labelPredicate :: "string \<Rightarrow> BMCSecret \<Rightarrow> bool" where
  "labelPredicate syncLabel object =
     (case Labels object of None \<Rightarrow> False | Some ls \<Rightarrow> ls syncLabel \<noteq> None)"

definition eventFilter :: "string \<Rightarrow> BMCSecret \<Rightarrow> bool" where
  "eventFilter syncLabel object = (if syncLabel \<noteq> [] then labelPredicate syncLabel object else True)"


text \<open>\<open>filterEnginesByLabels\<close> of the factory: the engine backends whose label predicate holds.\<close>

definition filterEnginesByLabels :: "'s EngineBackend list \<Rightarrow> labels \<Rightarrow> 's EngineBackend list" where
  "filterEnginesByLabels engines ls = filter (\<lambda>engine. MatchesLabels engine ls) engines"


section \<open>Reading the call log\<close>

text \<open>
  The calls a step issued are those its world has beyond the world it started from. A
  call failed when the store answered it with an error.
\<close>

definition callsSince :: "'s World \<Rightarrow> 's World \<Rightarrow> Call list" where
  "callsSince w w' = drop (length (calls w)) (calls w')"

fun isWrite :: "Call \<Rightarrow> bool" where
  "isWrite (WriteCall path secretData res) = True"
| "isWrite _ = False"

fun isDelete :: "Call \<Rightarrow> bool" where
  "isDelete (DeleteCall path res) = True"
| "isDelete _ = False"

fun failedCall :: "Call \<Rightarrow> bool" where
  "failedCall (ExistsCall path res) = (case res of Inl err \<Rightarrow> True | Inr b \<Rightarrow> False)"
| "failedCall (ReadCall path res) = (case res of Inl err \<Rightarrow> True | Inr d \<Rightarrow> False)"
| "failedCall (WriteCall path secretData res) = (res \<noteq> None)"
| "failedCall (DeleteCall path res) = (res \<noteq> None)"

fun callPath :: "Call \<Rightarrow> string" where
  "callPath (ExistsCall path res) = path"
| "callPath (ReadCall path res) = path"
| "callPath (WriteCall path secretData res) = path"
| "callPath (DeleteCall path res) = path"

text \<open>The variables a device is rendered with, and whether its path renders.\<close>

definition pathVariables :: "string \<Rightarrow> string \<Rightarrow> BMC \<Rightarrow> PathVariables" where
  "pathVariables regionLabelKey username bmc =
     \<lparr>PathVariables.Region = ExtractRegionFromBMC bmc regionLabelKey,
      PathVariables.Hostname = GetHostnameFromBMC bmc,
      PathVariables.Username = username\<rparr>"

definition renders :: "PathBuilder \<Rightarrow> string \<Rightarrow> string \<Rightarrow> BMC \<Rightarrow> bool" where
  "renders pb regionLabelKey username bmc =
     (case pb (pathVariables regionLabelKey username bmc) of Inl err \<Rightarrow> False | Inr path \<Rightarrow> True)"

text \<open>The paths of the devices that render, in order.\<close>

fun renderedPaths :: "PathBuilder \<Rightarrow> string \<Rightarrow> string \<Rightarrow> BMC list \<Rightarrow> string list" where
  "renderedPaths pb regionLabelKey username [] = []"
| "renderedPaths pb regionLabelKey username (bmc # bmcs) =
     (case pb (pathVariables regionLabelKey username bmc) of
        Inl err \<Rightarrow> renderedPaths pb regionLabelKey username bmcs
      | Inr path \<Rightarrow> path # renderedPaths pb regionLabelKey username bmcs)"

text \<open>
  The paths of a record's deletion on the default store: those of the devices whose
  secret reference names the record, that render under the default template with the
  record's username; none when the backend, the path builder, the region label key or
  the credentials cannot be had.
\<close>

definition deletionPaths :: "'s BMCSecretReconciler \<Rightarrow> BMCSecret \<Rightarrow> Cluster \<Rightarrow> string list" where
  "deletionPaths r bmcSecret c =
     (case (GetBackend (BackendFactory r), GetPathBuilder (BackendFactory r),
            GetRegionLabelKey (BackendFactory r), ExtractCredentials r bmcSecret) of
        (Inr be, Inr pb, Inr regionLabelKey, Inr (username, password)) \<Rightarrow>
          renderedPaths pb regionLabelKey username
            (filter (\<lambda>bmc. BMCSecretRef (Spec bmc) = ObjectMeta.Name bmcSecret) (bmcList c))
      | _ \<Rightarrow> [])"

text \<open>The string field \<open>password\<close> of a stored value, when it has one.\<close>

definition passwordField :: "SecretData \<Rightarrow> string option" where
  "passwordField d = (case d ''password'' of Some (VString p) \<Rightarrow> Some p | _ \<Rightarrow> None)"

text \<open>
  The loop variables at the start of a pass, and the (destination, device) pairs of a
  pass in the order its loops visit them: in single-engine mode the backend with each
  device, in multi-engine mode each matching engine, in turn, with each device. A pair
  carries what the loop body is given: the backend, the path builder, the engine name
  when there is one, and the device; \<open>syncPair\<close> is the loop body on a pair.
\<close>

definition startLoop :: "'s World \<Rightarrow> 's SyncLoop" where
  "startLoop w = \<lparr>syncErrors = 0, syncSuccess = 0, backendPaths = [], world = w\<rparr>"

type_synonym 's Pair = "'s Backend \<times> PathBuilder \<times> string option \<times> BMC"

definition singleEnginePairs :: "'s Backend \<Rightarrow> PathBuilder \<Rightarrow> BMC list \<Rightarrow> 's Pair list" where
  "singleEnginePairs be pb bmcs = map (\<lambda>bmc. (be, pb, None, bmc)) bmcs"

definition multiEnginePairs :: "'s EngineBackend list \<Rightarrow> BMC list \<Rightarrow> 's Pair list" where
  "multiEnginePairs ebs bmcs =
     concat (map (\<lambda>eb. map (\<lambda>bmc. (EngineBackend.Backend eb, PathBuilder eb, Some (EngineName eb), bmc)) bmcs) ebs)"

definition syncPair :: "string \<Rightarrow> string \<Rightarrow> string \<Rightarrow> nat \<Rightarrow> 's SyncLoop \<Rightarrow> 's Pair \<Rightarrow> 's SyncLoop" where
  "syncPair regionLabelKey username password syncTime l pair =
     (case pair of (be, pb, engine, bmc) \<Rightarrow>
        syncBMC be pb engine regionLabelKey username password syncTime bmc l)"

text \<open>The spec's coarse condition, as status and reason, from the two counts.\<close>

definition spec_coarse_condition :: "int \<Rightarrow> int \<Rightarrow> string \<times> string" where
  "spec_coarse_condition successful failed =
     (if failed = 0 then (''True'', ''AllPathsSynced'')
      else if successful > 0 \<and> failed > 0 then (''False'', ''PartialSync'')
      else (''False'', ''SyncFailed''))"


section \<open>The mock store of the tests (mock package)\<close>

text \<open>
  \<open>MockBackend\<close>, without its call counters (the world's call log has them). The remote
  stores of an example are a family of mocks, one per mount, and \<open>mockAt\<close> is the backend
  on the mock of a mount.
\<close>

record MockBackend =
  secrets :: "string \<rightharpoonup> SecretData"
  WriteError :: "error option"
  ReadError :: "error option"
  DeleteError :: "error option"
  SecretExistsError :: "error option"
  CloseCalled :: bool

definition NewMockBackend :: MockBackend where
  "NewMockBackend =
     \<lparr>secrets = Map.empty, WriteError = None, ReadError = None, DeleteError = None,
      SecretExistsError = None, CloseCalled = False\<rparr>"

definition mockAt :: "string \<Rightarrow> (string \<Rightarrow> MockBackend) Backend" where
  "mockAt mount =
     \<lparr>WriteSecret = (\<lambda>path secretData s.
        case WriteError (s mount) of
          Some err \<Rightarrow> (Some err, s)
        | None \<Rightarrow> (None, s(mount := (s mount)\<lparr>secrets := (secrets (s mount))(path \<mapsto> secretData)\<rparr>))),
      ReadSecret = (\<lambda>path s.
        case ReadError (s mount) of
          Some err \<Rightarrow> (Inl err, s)
        | None \<Rightarrow>
            (case secrets (s mount) path of
               None \<Rightarrow> (Inl (''secret not found at '' @ path), s)
             | Some secretData \<Rightarrow> (Inr secretData, s))),
      DeleteSecret = (\<lambda>path s.
        case DeleteError (s mount) of
          Some err \<Rightarrow> (Some err, s)
        | None \<Rightarrow> (None, s(mount := (s mount)\<lparr>secrets := (secrets (s mount))(path := None)\<rparr>))),
      SecretExists = (\<lambda>path s.
        case SecretExistsError (s mount) of
          Some err \<Rightarrow> (Inl err, s)
        | None \<Rightarrow> (Inr (secrets (s mount) path \<noteq> None), s)),
      Close = (\<lambda>s. (None, s(mount := (s mount)\<lparr>CloseCalled := True\<rparr>)))\<rparr>"


section \<open>Example objects\<close>

text \<open>
  The objects of the tests and of the documentation, for the instances of the theorems
  below: devices, a credential record, and a registry that holds them and accepts
  every request.
\<close>

definition bmcEmptyRegion :: BMC where
  "bmcEmptyRegion =
     \<lparr>ObjectMeta.Name = ''bmc-1'', Labels = Some [''region'' \<mapsto> []], Generation = 0,
      DeletionTimestamp = None, Finalizers = [],
      Spec = \<lparr>BMCSecretRef = ''creds'', BMCSpec.Hostname = None, EndpointRef = Some ''endpoint-1''\<rparr>\<rparr>"

definition exampleBMC :: "string \<Rightarrow> string \<Rightarrow> string \<Rightarrow> BMC" where
  "exampleBMC name region hostname =
     \<lparr>ObjectMeta.Name = name, Labels = Some [''region'' \<mapsto> region], Generation = 1,
      DeletionTimestamp = None, Finalizers = [],
      Spec = \<lparr>BMCSecretRef = ''creds'', BMCSpec.Hostname = Some hostname, EndpointRef = None\<rparr>\<rparr>"

definition twoBMCs :: "BMC list" where
  "twoBMCs = [exampleBMC ''bmc-1'' ''eu'' ''host1'', exampleBMC ''bmc-2'' ''us'' ''host2'']"

definition exampleSecret :: "labels \<Rightarrow> nat option \<Rightarrow> string list \<Rightarrow> BMCSecret" where
  "exampleSecret ls deletion finalizers =
     \<lparr>ObjectMeta.Name = ''creds'', Labels = ls, Generation = 1, DeletionTimestamp = deletion,
      Finalizers = finalizers, Data = [''username'' \<mapsto> ''admin'', ''password'' \<mapsto> ''secret123'']\<rparr>"

definition routedSecret :: BMCSecret where
  "routedSecret = exampleSecret (Some [''team'' \<mapsto> ''a'', ''critical'' \<mapsto> ''true'']) None []"

definition dataCredentials :: "BMCSecret \<Rightarrow> error + string \<times> string" where
  "dataCredentials bmcSecret =
     (case (Data bmcSecret ''username'', Data bmcSecret ''password'') of
        (Some username, Some password) \<Rightarrow> Inr (username, password)
      | _ \<Rightarrow> Inl ''missing credentials'')"

definition exampleWorld :: "BMCSecret \<Rightarrow> BMC list \<Rightarrow> (string \<Rightarrow> MockBackend) \<Rightarrow> (string \<Rightarrow> MockBackend) World" where
  "exampleWorld bmcSecret bmcs s =
     \<lparr>cluster = \<lparr>bmcSecrets = [bmcSecret], bmcList = bmcs,
                  syncStatuses = [], clientErr = (\<lambda>op. None)\<rparr>,
      stores = s, calls = [], events = []\<rparr>"

definition markDeleted :: "nat \<Rightarrow> 's World \<Rightarrow> 's World" where
  "markDeleted t w =
     w\<lparr>cluster := (cluster w)\<lparr>bmcSecrets :=
          map (\<lambda>obj. obj\<lparr>DeletionTimestamp := Some t\<rparr>) (bmcSecrets (cluster w))\<rparr>\<rparr>"

text \<open>Mock stores: empty, holding one secret, rejecting writes or deletes, failing to close.\<close>

definition freshStores :: "string \<Rightarrow> MockBackend" where
  "freshStores = (\<lambda>mount. NewMockBackend)"

definition credentials :: "string \<Rightarrow> string \<Rightarrow> SecretData" where
  "credentials username password = [''username'' \<mapsto> VString username, ''password'' \<mapsto> VString password]"

definition storesWith :: "string \<Rightarrow> string \<Rightarrow> SecretData \<Rightarrow> string \<Rightarrow> MockBackend" where
  "storesWith mount path secretData =
     freshStores(mount := NewMockBackend\<lparr>secrets := [path \<mapsto> secretData]\<rparr>)"


definition withDeleteError :: "string \<Rightarrow> error \<Rightarrow> (string \<Rightarrow> MockBackend) \<Rightarrow> string \<Rightarrow> MockBackend" where
  "withDeleteError mount err s = s(mount := (s mount)\<lparr>DeleteError := Some err\<rparr>)"

definition failingClose :: "error \<Rightarrow> 's Backend \<Rightarrow> 's Backend" where
  "failingClose err be = be\<lparr>Close := (\<lambda>s. (Some err, s))\<rparr>"

text \<open>
  Engine backends as \<open>parseSecretEngineConfig\<close> builds them over the mock stores, with the
  default template for every engine.
\<close>

definition exampleEngines :: "string \<Rightarrow> (string \<Rightarrow> MockBackend) EngineBackend list" where
  "exampleEngines spec =
     (case parseSecretEngineConfig (\<lambda>mount. Inr (mockAt mount)) (\<lambda>template. Inr defaultTemplate)
             [\<lparr>SecretEngineConfig.Name = ''team-a'', MountPath = ''team-a/secret'', PathTemplate = [],
               SyncLabel = spec\<rparr>] of
        Inl err \<Rightarrow> []
      | Inr ebs \<Rightarrow> ebs)"

definition twoEngines :: "(string \<Rightarrow> MockBackend) EngineBackend list" where
  "twoEngines =
     (case parseSecretEngineConfig (\<lambda>mount. Inr (mockAt mount)) (\<lambda>template. Inr defaultTemplate)
             [\<lparr>SecretEngineConfig.Name = ''team-a'', MountPath = ''team-a/secret'', PathTemplate = [],
               SyncLabel = ''team=a''\<rparr>,
              \<lparr>SecretEngineConfig.Name = ''critical'', MountPath = ''critical/secret'',
               PathTemplate = [], SyncLabel = ''critical''\<rparr>] of
        Inl err \<Rightarrow> []
      | Inr ebs \<Rightarrow> ebs)"

text \<open>
  Vault backends: an empty one per mount table, and one whose server refuses the
  connection.
\<close>

definition kvMount :: "string \<Rightarrow> (string \<rightharpoonup> string) option \<Rightarrow> MountOutput" where
  "kvMount mountType opts = \<lparr>MountOutput.Type = mountType, Options = opts\<rparr>"

definition vaultWithMount :: "MountOutput \<Rightarrow> VaultBackend" where
  "vaultWithMount mount =
     \<lparr>client = \<lparr>KVv2Get = (\<lambda>mountPath path.
                   Inl (''secret not found: at '' @ mountPath @ ''/data/'' @ path)),
                 LogicalRead = (\<lambda>path. Inr None),
                 ListMounts = Inr [''secret/'' \<mapsto> mount]\<rparr>,
      mountPath = ''secret'', isKVv2 = True\<rparr>"

definition unreachableVault :: VaultBackend where
  "unreachableVault =
     \<lparr>client = \<lparr>KVv2Get = (\<lambda>mount path. Inl ''connection refused''),
                 LogicalRead = (\<lambda>path. Inl ''connection refused''),
                 ListMounts = Inr [''secret/'' \<mapsto> kvMount ''kv'' (Some [''version'' \<mapsto> ''2''])]\<rparr>,
      mountPath = ''secret'', isKVv2 = True\<rparr>"

text \<open>
  A factory with a filled cache, and one with a filled cache whose engine backend fails
  to close.
\<close>

definition exampleConfig :: Config where
  "exampleConfig =
     \<lparr>Backend = ''vault'', VaultConfig = None, PathTemplate = ''bmc/{{.Region}}/{{.Hostname}}/{{.Username}}'',
      RegionLabelKey = ''region'', SyncLabel = []\<rparr>"

definition cachedFactory :: "(string \<Rightarrow> MockBackend) Backend \<Rightarrow> (string \<Rightarrow> MockBackend) BackendFactory" where
  "cachedFactory be =
     \<lparr>backend = Some be, pathBuilder = Some defaultTemplate, config = Some exampleConfig,
      engineBackends = exampleEngines ''team=a''\<rparr>"

definition engineCloseFails :: "(string \<Rightarrow> MockBackend) BackendFactory" where
  "engineCloseFails =
     (cachedFactory (mockAt ''secret''))
       \<lparr>engineBackends :=
          map (\<lambda>eb. eb\<lparr>EngineBackend.Backend := failingClose ''connection reset'' (EngineBackend.Backend eb)\<rparr>)
            (exampleEngines ''team=a'')\<rparr>"

text \<open>
  The factories of the tests as the reconciler sees them: \<open>MockBackendFactory\<close> (one store,
  no engines) and a factory with two engine bindings, which filters them by the record's
  labels as \<open>GetEngineBackends\<close> does; and a reconciler on either.
\<close>

definition mockFactory :: "string \<Rightarrow> (string \<Rightarrow> MockBackend) BackendFactoryInterface" where
  "mockFactory syncLabel =
     \<lparr>GetBackend = Inr (mockAt ''secret''), GetPathBuilder = Inr defaultTemplate,
      GetRegionLabelKey = Inr ''region'', GetSyncLabel = Inr syncLabel,
      GetEngineBackends = (\<lambda>ls. Inr []), HasMultiEngineConfig = Inr False\<rparr>"

definition multiFactory :: "(string \<Rightarrow> MockBackend) BackendFactoryInterface" where
  "multiFactory =
     \<lparr>GetBackend = Inr (mockAt ''secret''), GetPathBuilder = Inr defaultTemplate,
      GetRegionLabelKey = Inr ''region'', GetSyncLabel = Inr [],
      GetEngineBackends = (\<lambda>ls. Inr (filterEnginesByLabels twoEngines ls)),
      HasMultiEngineConfig = Inr True\<rparr>"

definition mockReconciler ::
  "(string \<Rightarrow> MockBackend) BackendFactoryInterface \<Rightarrow> (string \<Rightarrow> MockBackend) BMCSecretReconciler" where
  "mockReconciler factory = \<lparr>BackendFactory = factory, ExtractCredentials = dataCredentials, Now = 1000\<rparr>"

text \<open>
  Worlds: a record with one device whose path holds the credentials with a given
  password; a pass over two devices with one up to date and writes rejected; a record
  being deleted, with two devices on a store that rejects deletes; a record routed to
  two engines, before its sync pass, after it, and after the deletion pass that follows
  its being marked deleted.
\<close>

definition storedWorld :: "string \<Rightarrow> (string \<Rightarrow> MockBackend) World" where
  "storedWorld stored =
     exampleWorld (exampleSecret None None []) [exampleBMC ''bmc-1'' ''eu'' ''host1'']
       (storesWith ''secret'' ''bmc/eu/host1/admin'' (credentials ''admin'' stored))"


definition deletingTwo :: "(string \<Rightarrow> MockBackend) World" where
  "deletingTwo =
     exampleWorld (exampleSecret None (Some 2000) [bmcSecretFinalizer]) twoBMCs
       (withDeleteError ''secret'' ''backend delete failed'' freshStores)"

definition routedWorld :: "(string \<Rightarrow> MockBackend) World" where
  "routedWorld = exampleWorld routedSecret [exampleBMC ''bmc-1'' ''eu'' ''host1''] freshStores"

definition syncedWorld :: "(string \<Rightarrow> MockBackend) World" where
  "syncedWorld = snd (Reconcile (mockReconciler multiFactory) ''creds'' routedWorld)"

definition deletedWorld :: "(string \<Rightarrow> MockBackend) World" where
  "deletedWorld = snd (Reconcile (mockReconciler multiFactory) ''creds'' (markDeleted 2000 syncedWorld))"


section \<open>Verified properties\<close>

subsection \<open>Region and hostname of a device\<close>

text \<open>
  Claim C9, as amended. The computed region is the device's label value at the configured
  region-label key when that label is present and not empty, and the sentinel
  \<open>unknown\<close> when the device has no labels, lacks the label, or carries it with an empty
  value. The computed hostname is the first non-empty of the declared hostname, the
  endpoint reference name and the device's own name.
\<close>
theorem region_hostname:
  "(\<forall>ls region. Labels bmc = Some ls \<and> ls regionLabelKey = Some region \<and> region \<noteq> []
       \<longrightarrow> ExtractRegionFromBMC bmc regionLabelKey = region)
   \<and> ((Labels bmc = None \<or> (\<exists>ls. Labels bmc = Some ls
          \<and> (ls regionLabelKey = None \<or> ls regionLabelKey = Some [])))
       \<longrightarrow> ExtractRegionFromBMC bmc regionLabelKey = ''unknown'')
   \<and> GetHostnameFromBMC bmc =
       spec_first_non_empty [or_empty (BMCSpec.Hostname (Spec bmc)), or_empty (EndpointRef (Spec bmc)),
                        ObjectMeta.Name bmc]"
  by (auto simp: ExtractRegionFromBMC_def GetHostnameFromBMC_def or_empty_def split: option.splits)

text \<open>The theorem at a device with region \<open>eu\<close>, at one without labels, and its hostname.\<close>
theorem region_hostname_witness:
  "ExtractRegionFromBMC (bmcEmptyRegion\<lparr>Labels := Some [''region'' \<mapsto> ''eu'']\<rparr>) ''region'' = ''eu''
   \<and> ExtractRegionFromBMC (bmcEmptyRegion\<lparr>Labels := None\<rparr>) ''region'' = ''unknown''
   \<and> GetHostnameFromBMC bmcEmptyRegion = ''endpoint-1''"
  using region_hostname [of "bmcEmptyRegion\<lparr>Labels := Some [''region'' \<mapsto> ''eu'']\<rparr>" "''region''"]
        region_hostname [of "bmcEmptyRegion\<lparr>Labels := None\<rparr>" "''region''"]
        region_hostname [of "bmcEmptyRegion" "''region''"]
  by (simp add: bmcEmptyRegion_def or_empty_def)

text \<open>
  C9 as stated fails for a device whose region label is present with the empty value:
  the computed region is \<open>unknown\<close>, not the label's value.
\<close>
theorem region_empty_label_counterexample:
  "the (Labels bmcEmptyRegion) ''region'' = Some []
   \<and> ExtractRegionFromBMC bmcEmptyRegion ''region'' = ''unknown''
   \<and> ExtractRegionFromBMC bmcEmptyRegion ''region'' \<noteq> []"
  by (simp add: bmcEmptyRegion_def ExtractRegionFromBMC_def)

subsection \<open>The sync-label grammar\<close>

text \<open>Parsing a spec without \<open>=\<close> and a spec with one, and what an engine backend keeps of it.\<close>

lemma SplitN2_no_eq:
  assumes "CHR ''='' \<notin> set key"
  shows "SplitN2 key = [key]"
proof -
  have "dropWhile (\<lambda>c. c \<noteq> CHR ''='') key = []"
    using assms by (induction key) auto
  then show ?thesis unfolding SplitN2_def by (simp only: list.case)
qed

lemma SplitN2_eq:
  assumes "CHR ''='' \<notin> set key"
  shows "SplitN2 (key @ CHR ''='' # v) = [key, v]"
proof -
  have d: "dropWhile (\<lambda>c. c \<noteq> CHR ''='') (key @ CHR ''='' # v) = CHR ''='' # v"
    using assms by (induction key) auto
  have t: "takeWhile (\<lambda>c. c \<noteq> CHR ''='') (key @ CHR ''='' # v) = key"
    using assms by (induction key) auto
  show ?thesis by (simp add: SplitN2_def d t)
qed

lemma parseSyncLabel_key: "CHR ''='' \<notin> set key \<Longrightarrow> parseSyncLabel key = (key, [])"
  by (simp add: parseSyncLabel_def SplitN2_no_eq)

lemma parseSyncLabel_key_value:
  "CHR ''='' \<notin> set key \<Longrightarrow> parseSyncLabel (key @ ''='' @ v) = (key, v)"
  by (simp add: parseSyncLabel_def SplitN2_eq)

lemma parseSecretEngineConfig_labels:
  "parseSecretEngineConfig newBackend NewPathBuilder engines = Inr ebs \<Longrightarrow> e \<in> set ebs \<Longrightarrow>
   (SyncLabelKey e, SyncLabelVal e) = parseSyncLabel (EngineBackend.SyncLabel e)
   \<and> EngineBackend.SyncLabel e \<in> SecretEngineConfig.SyncLabel ` set engines"
proof (induction engines arbitrary: ebs)
  case Nil
  then show ?case by simp
next
  case (Cons engine engines)
  then show ?case
    by (auto split: sum.splits prod.splits simp: Let_def)
qed

text \<open>
  Claim C7, as amended. For every engine backend that \<open>parseSecretEngineConfig\<close> builds and
  every label map: a spec \<open>key\<close> matches exactly the label maps that contain the key; a
  spec \<open>key=value\<close> with a non-empty value matches exactly the label maps that bind the
  key to that value; a spec \<open>key=\<close> with an empty value matches like \<open>key\<close>; a nil or empty
  label map matches no engine.
\<close>
theorem MatchesLabels_grammar:
  assumes "parseSecretEngineConfig newBackend NewPathBuilder engines = Inr ebs"
    and "e \<in> set ebs"
    and "CHR ''='' \<notin> set key"
  shows "(EngineBackend.SyncLabel e = key \<longrightarrow>
            MatchesLabels e ls = (\<exists>m. ls = Some m \<and> m key \<noteq> None))
       \<and> (EngineBackend.SyncLabel e = key @ ''='' @ v \<and> v \<noteq> [] \<longrightarrow>
            MatchesLabels e ls = (\<exists>m. ls = Some m \<and> m key = Some v))
       \<and> (EngineBackend.SyncLabel e = key @ ''='' \<longrightarrow>
            MatchesLabels e ls = (\<exists>m. ls = Some m \<and> m key \<noteq> None))
       \<and> \<not> MatchesLabels e None \<and> \<not> MatchesLabels e (Some Map.empty)"
proof -
  have kv: "(SyncLabelKey e, SyncLabelVal e) = parseSyncLabel (EngineBackend.SyncLabel e)"
    using parseSecretEngineConfig_labels [OF assms(1,2)] by simp
  have a: "EngineBackend.SyncLabel e = key \<Longrightarrow> SyncLabelKey e = key \<and> SyncLabelVal e = []"
    using kv parseSyncLabel_key [OF assms(3)] by simp
  have b: "EngineBackend.SyncLabel e = key @ ''='' @ v \<Longrightarrow> SyncLabelKey e = key \<and> SyncLabelVal e = v"
    using kv parseSyncLabel_key_value [OF assms(3), of v] by simp
  have c: "EngineBackend.SyncLabel e = key @ ''='' \<Longrightarrow> SyncLabelKey e = key \<and> SyncLabelVal e = []"
    using kv parseSyncLabel_key_value [OF assms(3), of "[]"] by simp
  show ?thesis
    using a b c by (auto simp: MatchesLabels_def index_def split: option.splits)
qed

text \<open>The theorem at the specs \<open>team\<close> and \<open>team=a\<close>.\<close>
theorem MatchesLabels_grammar_witness:
  "map EngineName (filterEnginesByLabels (exampleEngines ''team'') (Some [''team'' \<mapsto> ''b''])) = [''team-a'']
   \<and> map EngineName (filterEnginesByLabels (exampleEngines ''team=a'') (Some [''team'' \<mapsto> ''a''])) = [''team-a'']
   \<and> map EngineName (filterEnginesByLabels (exampleEngines ''team=a'') (Some [''team'' \<mapsto> ''b''])) = []
   \<and> filterEnginesByLabels (exampleEngines ''team=a'') None = []"
proof -
  let ?nb = "\<lambda>mount. Inr (mockAt mount) :: error + (string \<Rightarrow> MockBackend) Backend"
  let ?np = "\<lambda>template :: string. Inr defaultTemplate :: error + PathBuilder"
  let ?cfg = "\<lambda>spec. [\<lparr>SecretEngineConfig.Name = ''team-a'', MountPath = ''team-a/secret'',
                         PathTemplate = [], SyncLabel = spec\<rparr>]"
  have p: "\<And>spec. parseSecretEngineConfig ?nb ?np (?cfg spec) = Inr (exampleEngines spec)"
    by (simp add: exampleEngines_def split: prod.splits)
  have one: "\<And>spec. \<exists>e. exampleEngines spec = [e] \<and> EngineBackend.SyncLabel e = spec \<and> EngineName e = ''team-a''"
    by (simp add: exampleEngines_def split: prod.splits)
  obtain e1 where e1: "exampleEngines ''team'' = [e1]" "EngineBackend.SyncLabel e1 = ''team''" "EngineName e1 = ''team-a''"
    using one by blast
  obtain e2 where e2: "exampleEngines ''team=a'' = [e2]" "EngineBackend.SyncLabel e2 = ''team=a''" "EngineName e2 = ''team-a''"
    using one by blast
  have k: "CHR ''='' \<notin> set ''team''" by simp
  have m1: "MatchesLabels e1 (Some [''team'' \<mapsto> ''b''])"
    using MatchesLabels_grammar [where e = e1 and ls = "Some [''team'' \<mapsto> ''b'']" and v = "''a''", OF p [of "''team''"] _ k] e1
    by simp
  have m2: "MatchesLabels e2 (Some [''team'' \<mapsto> ''a''])"
    using MatchesLabels_grammar [where e = e2 and ls = "Some [''team'' \<mapsto> ''a'']" and v = "''a''", OF p [of "''team=a''"] _ k] e2
    by simp
  have m3: "\<not> MatchesLabels e2 (Some [''team'' \<mapsto> ''b''])"
    using MatchesLabels_grammar [where e = e2 and ls = "Some [''team'' \<mapsto> ''b'']" and v = "''a''", OF p [of "''team=a''"] _ k] e2
    by simp
  have m4: "\<not> MatchesLabels e2 None"
    using MatchesLabels_grammar [where e = e2 and ls = None and v = "''a''", OF p [of "''team=a''"] _ k] e2
    by simp
  show ?thesis using m1 m2 m3 m4 e1 e2 by (simp add: filterEnginesByLabels_def)
qed

text \<open>
  C7 as stated fails for the spec \<open>team=\<close>: its exact value is the empty string, and the
  engine matches a record labelled \<open>team: a\<close>.
\<close>
theorem MatchesLabels_empty_value_counterexample:
  "map EngineName (filterEnginesByLabels (exampleEngines ''team='') (Some [''team'' \<mapsto> ''a''])) = [''team-a'']
   \<and> [''team'' \<mapsto> ''a''] ''team'' \<noteq> Some []"
  by (simp add: exampleEngines_def filterEnginesByLabels_def MatchesLabels_def parseSyncLabel_def
        SplitN2_def split: prod.splits)

subsection \<open>Vault paths and the KV version\<close>

text \<open>
  Claim C5. For a mount found in the mount table and every logical path: when the mount's
  version option is \<open>2\<close> the full path is \<open><mount>/data/<path>\<close>; when it is \<open>1\<close> the full
  path is \<open><mount>/<path>\<close>; when the mount has no version option the v2 layout is used
  exactly when the mount's type is \<open>kv\<close> or \<open>generic\<close>.
\<close>
theorem buildPath_by_version:
  assumes "ListMounts (client v) = Inr mounts"
    and "mounts (mountPath v @ ''/'') = Some mount"
  shows "\<exists>v'. detectKVVersion v = Inr v' \<and> mountPath v' = mountPath v
      \<and> (versionOption mount = Some ''2'' \<longrightarrow>
            isKVv2 v' \<and> buildPath v' path = mountPath v @ ''/data/'' @ path)
      \<and> (versionOption mount = Some ''1'' \<longrightarrow>
            \<not> isKVv2 v' \<and> buildPath v' path = mountPath v @ ''/'' @ path)
      \<and> (versionOption mount = None \<longrightarrow>
            isKVv2 v' = (MountOutput.Type mount = ''kv'' \<or> MountOutput.Type mount = ''generic'')
            \<and> buildPath v' path =
                (if MountOutput.Type mount = ''kv'' \<or> MountOutput.Type mount = ''generic''
                 then mountPath v @ ''/data/'' @ path else mountPath v @ ''/'' @ path))"
  using assms
  by (auto simp: detectKVVersion_def versionOption_def buildPath_def index_def
           split: option.splits)

text \<open>The theorem at a \<open>kv\<close> mount of version 1 and at a \<open>generic\<close> mount without options.\<close>
theorem buildPath_by_version_witness:
  "(\<exists>v'. detectKVVersion (vaultWithMount (kvMount ''kv'' (Some [''version'' \<mapsto> ''1''])))
            = Inr v'
       \<and> buildPath v' ''bmc/eu/host/admin'' = ''secret/bmc/eu/host/admin'')
   \<and> (\<exists>v'. detectKVVersion (vaultWithMount (kvMount ''generic'' None)) = Inr v'
       \<and> buildPath v' ''bmc/eu/host/admin'' = ''secret/data/bmc/eu/host/admin'')"
proof -
  let ?m1 = "kvMount ''kv'' (Some [''version'' \<mapsto> ''1''])"
  let ?m2 = "kvMount ''generic'' None"
  have l: "\<And>m. ListMounts (client (vaultWithMount m)) = Inr [''secret/'' \<mapsto> m]"
    by (simp add: vaultWithMount_def)
  have k: "\<And>m. [''secret/'' \<mapsto> m] (mountPath (vaultWithMount m) @ ''/'') = Some m"
    by (simp add: vaultWithMount_def)
  have v1: "versionOption ?m1 = Some ''1''"
    by (simp add: versionOption_def kvMount_def)
  have v2: "versionOption ?m2 = None \<and> MountOutput.Type ?m2 = ''generic''"
    by (simp add: versionOption_def kvMount_def)
  have p: "\<And>m. mountPath (vaultWithMount m) = ''secret''"
    by (simp add: vaultWithMount_def)
  from buildPath_by_version [OF l k, of ?m1 "''bmc/eu/host/admin''"] v1 p
  have a: "\<exists>v'. detectKVVersion (vaultWithMount ?m1) = Inr v'
             \<and> buildPath v' ''bmc/eu/host/admin'' = ''secret/bmc/eu/host/admin''"
    by auto
  from buildPath_by_version [OF l k, of ?m2 "''bmc/eu/host/admin''"] v2 p
  have b: "\<exists>v'. detectKVVersion (vaultWithMount ?m2) = Inr v'
             \<and> buildPath v' ''bmc/eu/host/admin'' = ''secret/data/bmc/eu/host/admin''"
    by auto
  from a b show ?thesis by blast
qed

subsection \<open>Existence check and read\<close>

text \<open>
  Claim C8 fails on the code. \<open>SecretExists\<close> looks for the text \<open>secret not found\<close> in
  the error of \<open>ReadSecret\<close>, and that error carries the path. For the path
  \<open>bmc/eu/host1/secret not found\<close> (a credential whose username is \<open>secret not found\<close>)
  on a Vault that refuses the connection, the read fails with a transport error, not
  with not-found, and \<open>SecretExists\<close> answers false without an error; for another path
  the same failure is returned as an error.
\<close>
theorem SecretExists_masks_read_error:
  "VaultBackend_ReadSecret unreachableVault ''bmc/eu/host1/secret not found''
     = Inl ''failed to read secret from vault at secret/data/bmc/eu/host1/secret not found: connection refused''
   \<and> \<not> readNotFound unreachableVault ''bmc/eu/host1/secret not found''
   \<and> VaultBackend_SecretExists unreachableVault ''bmc/eu/host1/secret not found'' = Inr False
   \<and> VaultBackend_SecretExists unreachableVault ''bmc/eu/host/admin'' = Inl
       ''failed to read secret from vault at secret/data/bmc/eu/host/admin: connection refused''"
  by (simp add: VaultBackend_SecretExists_def VaultBackend_ReadSecret_def readNotFound_def
        clientNotFound_def unreachableVault_def buildPath_def)

text \<open>
  What does hold: existence is reported exactly when the read succeeds, and a missing
  secret is reported as absent.
\<close>
lemma Contains_prefix: "HasPrefix s substr \<Longrightarrow> Contains s substr"
  by (cases s; cases substr) auto

lemma Contains_append: "Contains s substr \<Longrightarrow> Contains (t @ s) substr"
  by (induction t) auto

lemma SecretExists_agrees_with_read:
  "(VaultBackend_SecretExists v path = Inr True) = (\<exists>d. VaultBackend_ReadSecret v path = Inr d)"
  "readNotFound v path \<Longrightarrow> VaultBackend_SecretExists v path = Inr False"
proof -
  show "(VaultBackend_SecretExists v path = Inr True) = (\<exists>d. VaultBackend_ReadSecret v path = Inr d)"
    by (auto simp: VaultBackend_SecretExists_def split: sum.splits)
  have nf: "Contains (''secret not found at '' @ p) ''secret not found''" for p
    by simp
  have wrapped: "Contains (''failed to read secret from vault at '' @ p @ '': '' @ err) ''secret not found''"
    if "clientNotFound err" for p err
  proof -
    have "Contains err ''secret not found''"
      using that by (simp add: clientNotFound_def Contains_prefix)
    then have "Contains ((''failed to read secret from vault at '' @ p @ '': '') @ err) ''secret not found''"
      by (rule Contains_append)
    then show ?thesis by simp
  qed
  show "VaultBackend_SecretExists v path = Inr False" if "readNotFound v path"
  proof (cases "VaultBackend_ReadSecret v path")
    case (Inr d)
    with that show ?thesis
      by (auto simp: VaultBackend_ReadSecret_def readNotFound_def Let_def
          split: sum.splits option.splits if_splits)
  next
    case (Inl e)
    have "Contains e ''secret not found''"
      using that Inl nf wrapped
      by (auto simp: VaultBackend_ReadSecret_def readNotFound_def Let_def
          split: sum.splits option.splits if_splits)
    with Inl show ?thesis
      by (simp add: VaultBackend_SecretExists_def)
  qed
qed

subsection \<open>Cache invalidation\<close>

text \<open>When every engine backend closes, the loop over them reports no error.\<close>

lemma closeEngineBackends_ok:
  "\<forall>eb \<in> set ebs. \<forall>s0. fst (Close (EngineBackend.Backend eb) s0) = None \<Longrightarrow>
   fst (closeEngineBackends ebs s) = None"
proof (induction ebs arbitrary: s)
  case Nil
  then show ?case by simp
next
  case (Cons eb ebs)
  obtain res s' where c: "Close (EngineBackend.Backend eb) s = (res, s')"
    by (cases "Close (EngineBackend.Backend eb) s") auto
  with Cons.prems have "res = None"
    by (metis fst_conv list.set_intros(1))
  with c Cons show ?case by simp
qed


text \<open>When an engine backend fails to close whatever the state, the loop reports an error.\<close>

lemma closeEngineBackends_fails:
  "\<exists>eb \<in> set ebs. \<forall>s0. fst (Close (EngineBackend.Backend eb) s0) \<noteq> None \<Longrightarrow>
   fst (closeEngineBackends ebs s) \<noteq> None"
proof (induction ebs arbitrary: s)
  case Nil
  then show ?case by simp
next
  case (Cons eb ebs)
  obtain res s' where c: "Close (EngineBackend.Backend eb) s = (res, s')"
    by (cases "Close (EngineBackend.Backend eb) s") auto
  show ?case
  proof (cases res)
    case (Some err)
    with c show ?thesis by simp
  next
    case None
    with c have "\<not> (\<forall>s0. fst (Close (EngineBackend.Backend eb) s0) \<noteq> None)"
      by (metis fst_conv)
    with Cons.prems have "\<exists>eb \<in> set ebs. \<forall>s0. fst (Close (EngineBackend.Backend eb) s0) \<noteq> None"
      by (metis set_ConsD)
    from Cons.IH [OF this] c None show ?thesis by simp
  qed
qed


text \<open>
  Claim C4, as amended. Cache invalidation clears the cached snapshot (backend, engine
  backends, configuration, path builder) when it returns no error, which it does when
  every close succeeds; when it returns an error, the engine backends, the
  configuration and the path builder are kept. When closing the backend fails, the
  failure is returned and the whole cache is left as it was. When the backend closes
  (or none is cached) and an engine backend fails to close, a failure is returned, the
  backend is cleared, and the engine backends, configuration and path builder are kept.
\<close>
theorem InvalidateCache_clears_when_closed:
  assumes "InvalidateCache f s = (res, f', s')"
  shows "(res = None \<longrightarrow>
            backend f' = None \<and> engineBackends f' = [] \<and> config f' = None \<and> pathBuilder f' = None)
       \<and> (res \<noteq> None \<longrightarrow>
            engineBackends f' = engineBackends f \<and> config f' = config f
            \<and> pathBuilder f' = pathBuilder f)
       \<and> ((\<forall>b. backend f = Some b \<longrightarrow> fst (Close b s) = None)
            \<and> (\<forall>eb \<in> set (engineBackends f). \<forall>s0. fst (Close (EngineBackend.Backend eb) s0) = None)
          \<longrightarrow> res = None)
       \<and> (\<forall>b err s1. backend f = Some b \<and> Close b s = (Some err, s1) \<longrightarrow>
            res = Some (''failed to close backend during cache invalidation: '' @ err)
            \<and> f' = f \<and> s' = s1)
       \<and> ((\<forall>b. backend f = Some b \<longrightarrow> fst (Close b s) = None)
            \<and> (\<exists>eb \<in> set (engineBackends f). \<forall>s0. fst (Close (EngineBackend.Backend eb) s0) \<noteq> None)
          \<longrightarrow> res \<noteq> None \<and> f' = f\<lparr>backend := None\<rparr>)"
proof -
  have a: "res = None \<longrightarrow>
            backend f' = None \<and> engineBackends f' = [] \<and> config f' = None \<and> pathBuilder f' = None"
    using assms by (auto simp: InvalidateCache_def split: option.splits prod.splits)
  have b: "res \<noteq> None \<longrightarrow>
            engineBackends f' = engineBackends f \<and> config f' = config f
            \<and> pathBuilder f' = pathBuilder f"
    using assms by (auto simp: InvalidateCache_def split: option.splits prod.splits)
  have c: "res = None"
    if h1: "\<forall>b. backend f = Some b \<longrightarrow> fst (Close b s) = None"
      and h2: "\<forall>eb \<in> set (engineBackends f). \<forall>s0. fst (Close (EngineBackend.Backend eb) s0) = None"
  proof -
    have e: "\<And>s1. fst (closeEngineBackends (engineBackends f) s1) = None"
      using closeEngineBackends_ok [OF h2] by simp
    show ?thesis
    proof (cases "backend f")
      case None
      with assms e [of s] show ?thesis
        by (auto simp: InvalidateCache_def split: option.splits prod.splits)
    next
      case (Some b)
      with h1 obtain s1 where "Close b s = (None, s1)"
        by (cases "Close b s") auto
      with Some assms e [of s1] show ?thesis
        by (auto simp: InvalidateCache_def split: option.splits prod.splits)
    qed
  qed
  have d: "res = Some (''failed to close backend during cache invalidation: '' @ err)
            \<and> f' = f \<and> s' = s1"
    if "backend f = Some b" and "Close b s = (Some err, s1)" for b err s1
    using assms that by (simp add: InvalidateCache_def)
  have e: "res \<noteq> None \<and> f' = f\<lparr>backend := None\<rparr>"
    if h1: "\<forall>b. backend f = Some b \<longrightarrow> fst (Close b s) = None"
      and h2: "\<exists>eb \<in> set (engineBackends f). \<forall>s0. fst (Close (EngineBackend.Backend eb) s0) \<noteq> None"
  proof -
    have e: "\<And>s1. fst (closeEngineBackends (engineBackends f) s1) \<noteq> None"
      using closeEngineBackends_fails [OF h2] by simp
    show ?thesis
    proof (cases "backend f")
      case None
      then have "f\<lparr>backend := None\<rparr> = f" by simp
      with None assms e [of s] show ?thesis
        by (auto simp: InvalidateCache_def split: option.splits prod.splits)
    next
      case (Some b)
      with h1 obtain s1 where "Close b s = (None, s1)"
        by (cases "Close b s") auto
      with Some assms e [of s1] show ?thesis
        by (auto simp: InvalidateCache_def split: option.splits prod.splits)
    qed
  qed
  from a b c d e show ?thesis by blast
qed


text \<open>
  The theorem at a factory whose stores all close, at one whose backend fails to close,
  and at one whose engine backend fails to close.
\<close>
theorem InvalidateCache_clears_when_closed_witness:
  "(\<lambda>(res, f', s'). res = None \<and> backend f' = None \<and> engineBackends f' = [] \<and> config f' = None
        \<and> pathBuilder f' = None)
     (InvalidateCache (cachedFactory (mockAt ''secret'')) freshStores)
   \<and> InvalidateCache (cachedFactory (failingClose ''connection reset'' (mockAt ''secret''))) freshStores
     = (Some ''failed to close backend during cache invalidation: connection reset'',
        cachedFactory (failingClose ''connection reset'' (mockAt ''secret'')), freshStores)
   \<and> fst (InvalidateCache engineCloseFails freshStores) \<noteq> None
   \<and> fst (snd (InvalidateCache engineCloseFails freshStores)) = engineCloseFails\<lparr>backend := None\<rparr>"
proof -
  obtain res f' s' where r: "InvalidateCache (cachedFactory (mockAt ''secret'')) freshStores = (res, f', s')"
    by (cases "InvalidateCache (cachedFactory (mockAt ''secret'')) freshStores") auto
  have c1: "\<forall>b. backend (cachedFactory (mockAt ''secret'')) = Some b \<longrightarrow> fst (Close b freshStores) = None"
    by (simp add: cachedFactory_def mockAt_def)
  have c2: "\<forall>eb \<in> set (engineBackends (cachedFactory (mockAt ''secret''))).
              \<forall>s0. fst (Close (EngineBackend.Backend eb) s0) = None"
    by (simp add: cachedFactory_def exampleEngines_def mockAt_def split: prod.splits)
  from InvalidateCache_clears_when_closed [OF r] c1 c2 have "res = None" by blast
  with InvalidateCache_clears_when_closed [OF r] have first: "(\<lambda>(res, f', s'). res = None \<and> backend f' = None \<and> engineBackends f' = [] \<and> config f' = None
        \<and> pathBuilder f' = None)
     (InvalidateCache (cachedFactory (mockAt ''secret'')) freshStores)"
    by (simp add: r)
  let ?f = "cachedFactory (failingClose ''connection reset'' (mockAt ''secret''))"
  obtain res2 f2 s2 where r2: "InvalidateCache ?f freshStores = (res2, f2, s2)"
    by (cases "InvalidateCache ?f freshStores") auto
  have b: "backend ?f = Some (failingClose ''connection reset'' (mockAt ''secret''))"
    by (simp add: cachedFactory_def)
  have cl: "Close (failingClose ''connection reset'' (mockAt ''secret'')) freshStores
            = (Some ''connection reset'', freshStores)"
    by (simp add: failingClose_def)
  from InvalidateCache_clears_when_closed [OF r2] b cl
  have "res2 = Some (''failed to close backend during cache invalidation: '' @ ''connection reset'')
        \<and> f2 = ?f \<and> s2 = freshStores"
    by blast
  with r2 have second: "InvalidateCache ?f freshStores
     = (Some ''failed to close backend during cache invalidation: connection reset'', ?f, freshStores)"
    by simp
  obtain res3 f3 s3 where r3: "InvalidateCache engineCloseFails freshStores = (res3, f3, s3)"
    by (cases "InvalidateCache engineCloseFails freshStores") auto
  have e1: "\<forall>b. backend engineCloseFails = Some b \<longrightarrow> fst (Close b freshStores) = None"
    by (simp add: engineCloseFails_def cachedFactory_def mockAt_def)
  have e2: "\<exists>eb \<in> set (engineBackends engineCloseFails).
              \<forall>s0. fst (Close (EngineBackend.Backend eb) s0) \<noteq> None"
    by (simp add: engineCloseFails_def cachedFactory_def exampleEngines_def failingClose_def
          split: prod.splits)
  from InvalidateCache_clears_when_closed [OF r3] e1 e2
  have "res3 \<noteq> None \<and> f3 = engineCloseFails\<lparr>backend := None\<rparr>"
    by blast
  with r3 have third: "fst (InvalidateCache engineCloseFails freshStores) \<noteq> None
      \<and> fst (snd (InvalidateCache engineCloseFails freshStores)) = engineCloseFails\<lparr>backend := None\<rparr>"
    by simp
  from first second third show ?thesis by blast
qed

text \<open>
  C4 as stated fails when the backend's close fails: the error is returned and the
  backend, configuration, path builder and engine backends stay cached.
\<close>
theorem InvalidateCache_close_failure_counterexample:
  "fst (InvalidateCache (cachedFactory (failingClose ''connection reset'' (mockAt ''secret''))) freshStores)
     = Some ''failed to close backend during cache invalidation: connection reset''
   \<and> config (fst (snd (InvalidateCache
         (cachedFactory (failingClose ''connection reset'' (mockAt ''secret''))) freshStores)))
     = Some exampleConfig
   \<and> backend (fst (snd (InvalidateCache
         (cachedFactory (failingClose ''connection reset'' (mockAt ''secret''))) freshStores)))
     \<noteq> None
   \<and> pathBuilder (fst (snd (InvalidateCache
         (cachedFactory (failingClose ''connection reset'' (mockAt ''secret''))) freshStores)))
     \<noteq> None
   \<and> engineBackends (fst (snd (InvalidateCache
         (cachedFactory (failingClose ''connection reset'' (mockAt ''secret''))) freshStores)))
     \<noteq> []"
  by (simp add: InvalidateCache_def cachedFactory_def failingClose_def exampleEngines_def
        split: prod.splits)

subsection \<open>The global sync label\<close>

text \<open>
  Claim C6. When a global sync label is configured and the fetched record does not carry
  it (it has no labels, or its labels lack the key), the pass returns at once and leaves
  the world as it was: the registry is unchanged, so no finalizer is added and no
  status record is created or updated, and no call is issued to a store, so an unlabeled
  record yields zero reads and zero writes.
\<close>
theorem Reconcile_skips_unlabeled:
  assumes "getBMCSecret (cluster w) req = Found bmcSecret"
    and "GetSyncLabel (BackendFactory r) = Inr syncLabel"
    and "syncLabel \<noteq> []"
    and "Labels bmcSecret = None \<or> (\<exists>ls. Labels bmcSecret = Some ls \<and> ls syncLabel = None)"
  shows "Reconcile r req w = ((\<lparr>RequeueAfter = 0\<rparr>, None), w)"
  using assms by (auto simp: Reconcile_def index_def)

text \<open>The theorem at the unlabeled record of the tests, with sync label \<open>sync-enabled\<close>.\<close>
theorem Reconcile_skips_unlabeled_witness:
  "Reconcile (mockReconciler (mockFactory ''sync-enabled'')) ''creds''
     (exampleWorld (exampleSecret None None []) [exampleBMC ''bmc-1'' ''us-east-1'' ''host1''] freshStores)
   = ((\<lparr>RequeueAfter = 0\<rparr>, None),
      exampleWorld (exampleSecret None None []) [exampleBMC ''bmc-1'' ''us-east-1'' ''host1''] freshStores)
   \<and> calls (exampleWorld (exampleSecret None None []) [exampleBMC ''bmc-1'' ''us-east-1'' ''host1'']
        freshStores) = []"
proof -
  let ?w = "exampleWorld (exampleSecret None None []) [exampleBMC ''bmc-1'' ''us-east-1'' ''host1''] freshStores"
  have a: "getBMCSecret (cluster ?w) ''creds'' = Found (exampleSecret None None [])"
    by (simp add: getBMCSecret_def getByName_def exampleWorld_def exampleSecret_def)
  have b: "GetSyncLabel (BackendFactory (mockReconciler (mockFactory ''sync-enabled''))) = Inr ''sync-enabled''"
    by (simp add: mockReconciler_def mockFactory_def)
  have c: "''sync-enabled'' \<noteq> []" by simp
  have d: "Labels (exampleSecret None None []) = None
           \<or> (\<exists>ls. Labels (exampleSecret None None []) = Some ls \<and> ls ''sync-enabled'' = None)"
    by (simp add: exampleSecret_def)
  show ?thesis
    using Reconcile_skips_unlabeled [OF a b c d] by (simp add: exampleWorld_def)
qed

text \<open>
  Claim C10. When a global sync label is configured and the record carries the label's
  key bound to the empty string, the pass skips the record as if it lacked the label:
  the world is unchanged (no writes, no finalizer). The event filter installed at
  setup admits the same record, since it tests only that the key exists.
\<close>
theorem Reconcile_skips_empty_label:
  assumes "getBMCSecret (cluster w) req = Found bmcSecret"
    and "GetSyncLabel (BackendFactory r) = Inr syncLabel"
    and "syncLabel \<noteq> []"
    and "Labels bmcSecret = Some ls"
    and "ls syncLabel = Some []"
  shows "Reconcile r req w = ((\<lparr>RequeueAfter = 0\<rparr>, None), w) \<and> eventFilter syncLabel bmcSecret"
  using assms by (auto simp: Reconcile_def index_def eventFilter_def labelPredicate_def)

text \<open>The theorem at a record labelled \<open>sync-enabled\<close> with the empty value.\<close>
theorem Reconcile_skips_empty_label_witness:
  "Reconcile (mockReconciler (mockFactory ''sync-enabled'')) ''creds''
     (exampleWorld (exampleSecret (Some [''sync-enabled'' \<mapsto> []]) None [])
        [exampleBMC ''bmc-1'' ''us-east-1'' ''host1''] freshStores)
   = ((\<lparr>RequeueAfter = 0\<rparr>, None),
      exampleWorld (exampleSecret (Some [''sync-enabled'' \<mapsto> []]) None [])
        [exampleBMC ''bmc-1'' ''us-east-1'' ''host1''] freshStores)
   \<and> eventFilter ''sync-enabled'' (exampleSecret (Some [''sync-enabled'' \<mapsto> []]) None [])"
proof -
  let ?s = "exampleSecret (Some [''sync-enabled'' \<mapsto> []]) None []"
  let ?w = "exampleWorld ?s [exampleBMC ''bmc-1'' ''us-east-1'' ''host1''] freshStores"
  have a: "getBMCSecret (cluster ?w) ''creds'' = Found ?s"
    by (simp add: getBMCSecret_def getByName_def exampleWorld_def exampleSecret_def)
  have b: "GetSyncLabel (BackendFactory (mockReconciler (mockFactory ''sync-enabled''))) = Inr ''sync-enabled''"
    by (simp add: mockReconciler_def mockFactory_def)
  have c: "''sync-enabled'' \<noteq> []" by simp
  have d: "Labels ?s = Some [''sync-enabled'' \<mapsto> []]"
    by (simp add: exampleSecret_def)
  have e: "[''sync-enabled'' \<mapsto> []] ''sync-enabled'' = Some []" by simp
  show ?thesis
    using Reconcile_skips_empty_label [OF a b c d e] by simp
qed

subsection \<open>The idempotency check\<close>

text \<open>\<open>needsUpdate\<close> by the answers of the store to the existence check and to the read.\<close>
lemma needsUpdate_calls:
  assumes "SecretExists be path (stores w) = (ex, s1)"
    and "ReadSecret be path s1 = (rd, s2)"
  shows "needsUpdate be path password w =
     (case ex of
        Inl err \<Rightarrow> (Inl err, w\<lparr>stores := s1, calls := calls w @ [ExistsCall path ex]\<rparr>)
      | Inr False \<Rightarrow> (Inr True, w\<lparr>stores := s1, calls := calls w @ [ExistsCall path ex]\<rparr>)
      | Inr True \<Rightarrow>
         (case rd of
            Inl err \<Rightarrow> (Inl err, w\<lparr>stores := s2, calls := calls w @ [ExistsCall path ex, ReadCall path rd]\<rparr>)
          | Inr d \<Rightarrow> (Inr (passwordField d \<noteq> Some password),
                      w\<lparr>stores := s2, calls := calls w @ [ExistsCall path ex, ReadCall path rd]\<rparr>)))"
  using assms
  by (auto simp: needsUpdate_def passwordField_def Let_def split: sum.splits option.splits val.splits bool.splits)

text \<open>
  One pair, by the store's answers to the existence check, to the read that follows it
  and to the write: the calls it issues with their answers, the store it leaves, and
  the entry it records.
\<close>
lemma syncBMC_pair:
  assumes "pb (pathVariables regionLabelKey username bmc) = Inr path"
    and "SecretExists be path (stores (world l)) = (ex, s1)"
    and "ReadSecret be path s1 = (rd, s2)"
    and "WriteSecret be path [''username'' \<mapsto> VString username, ''password'' \<mapsto> VString password]
           (if ex = Inr False then s1 else s2) = (wr, s3)"
  shows "calls (world (syncBMC be pb engine regionLabelKey username password syncTime bmc l))
         = calls (world l)
           @ (case ex of Inr True \<Rightarrow> [ExistsCall path ex, ReadCall path rd] | _ \<Rightarrow> [ExistsCall path ex])
           @ (if ex = Inr False \<or> (ex = Inr True \<and> (\<exists>d. rd = Inr d \<and> passwordField d \<noteq> Some password))
              then [WriteCall path [''username'' \<mapsto> VString username, ''password'' \<mapsto> VString password] wr]
              else [])"
    and "stores (world (syncBMC be pb engine regionLabelKey username password syncTime bmc l))
         = (if ex = Inr False \<or> (ex = Inr True \<and> (\<exists>d. rd = Inr d \<and> passwordField d \<noteq> Some password))
            then s3 else (case ex of Inr True \<Rightarrow> s2 | _ \<Rightarrow> s1))"
    and "\<exists>entry. backendPaths (syncBMC be pb engine regionLabelKey username password syncTime bmc l)
           = backendPaths l @ [entry]
         \<and> Path entry = path \<and> BMCName entry = ObjectMeta.Name bmc
         \<and> SyncStatus entry =
             (if (ex = Inr False \<and> wr = None)
                 \<or> (ex = Inr True \<and> (\<exists>d. rd = Inr d
                       \<and> (passwordField d = Some password \<or> wr = None)))
              then ''Success'' else ''Failed'')"
proof -
  have p: "pb \<lparr>PathVariables.Region = ExtractRegionFromBMC bmc regionLabelKey,
                PathVariables.Hostname = GetHostnameFromBMC bmc,
                PathVariables.Username = username\<rparr> = Inr path"
    using assms(1) by (simp add: pathVariables_def)
  note nu = needsUpdate_calls [OF assms(2,3), of password]
  let ?goal1 = "calls (world (syncBMC be pb engine regionLabelKey username password syncTime bmc l))
         = calls (world l)
           @ (case ex of Inr True \<Rightarrow> [ExistsCall path ex, ReadCall path rd] | _ \<Rightarrow> [ExistsCall path ex])
           @ (if ex = Inr False \<or> (ex = Inr True \<and> (\<exists>d. rd = Inr d \<and> passwordField d \<noteq> Some password))
              then [WriteCall path [''username'' \<mapsto> VString username, ''password'' \<mapsto> VString password] wr]
              else [])"
  let ?goal2 = "stores (world (syncBMC be pb engine regionLabelKey username password syncTime bmc l))
         = (if ex = Inr False \<or> (ex = Inr True \<and> (\<exists>d. rd = Inr d \<and> passwordField d \<noteq> Some password))
            then s3 else (case ex of Inr True \<Rightarrow> s2 | _ \<Rightarrow> s1))"
  let ?goal3 = "\<exists>entry. backendPaths (syncBMC be pb engine regionLabelKey username password syncTime bmc l)
           = backendPaths l @ [entry]
         \<and> Path entry = path \<and> BMCName entry = ObjectMeta.Name bmc
         \<and> SyncStatus entry =
             (if (ex = Inr False \<and> wr = None)
                 \<or> (ex = Inr True \<and> (\<exists>d. rd = Inr d
                       \<and> (passwordField d = Some password \<or> wr = None)))
              then ''Success'' else ''Failed'')"
  have "?goal1 \<and> ?goal2 \<and> ?goal3"
  proof (cases ex)
    case (Inl err)
    then show ?thesis
      by (simp add: syncBMC_def p nu)
  next
    case (Inr exists)
    show ?thesis
    proof (cases exists)
      case False
      with Inr assms(4) show ?thesis
        by (cases wr) (simp_all add: syncBMC_def p nu Event_def)
    next
      case True
      show ?thesis
      proof (cases rd)
        case (Inl err)
        with Inr True show ?thesis
          by (simp add: syncBMC_def p nu)
      next
        case rd: (Inr d)
        show ?thesis
        proof (cases "passwordField d = Some password")
          case True
          with Inr \<open>exists\<close> rd show ?thesis
            by (simp add: syncBMC_def p nu)
        next
          case False
          with Inr \<open>exists\<close> rd assms(4) show ?thesis
            by (cases wr) (simp_all add: syncBMC_def p nu Event_def)
        qed
      qed
    qed
  qed
  then show ?goal1 and ?goal2 and ?goal3 by simp_all
qed

subsection \<open>Counting a sync pass\<close>

text \<open>
  One turn of the loop: it appends to the call log, leaves the registry alone, adds one
  entry, counts the pair once, and counts it as an error exactly when its path does not
  render or one of its calls failed.
\<close>
lemma syncBMC_step:
  "\<exists>new. calls (world (syncBMC be pb engine regionLabelKey username password syncTime bmc l))
            = calls (world l) @ new
     \<and> cluster (world (syncBMC be pb engine regionLabelKey username password syncTime bmc l))
            = cluster (world l)
     \<and> length (backendPaths (syncBMC be pb engine regionLabelKey username password syncTime bmc l))
            = length (backendPaths l) + 1
     \<and> syncSuccess (syncBMC be pb engine regionLabelKey username password syncTime bmc l)
         + syncErrors (syncBMC be pb engine regionLabelKey username password syncTime bmc l)
            = syncSuccess l + syncErrors l + 1
     \<and> syncSuccess l \<le> syncSuccess (syncBMC be pb engine regionLabelKey username password syncTime bmc l)
     \<and> syncErrors (syncBMC be pb engine regionLabelKey username password syncTime bmc l)
            = syncErrors l + (if renders pb regionLabelKey username bmc then 0 else 1)
              + int (length (filter failedCall new))"
proof (cases "pb (pathVariables regionLabelKey username bmc)")
  case (Inl err)
  then have p: "pb \<lparr>PathVariables.Region = ExtractRegionFromBMC bmc regionLabelKey,
                PathVariables.Hostname = GetHostnameFromBMC bmc,
                PathVariables.Username = username\<rparr> = Inl err"
    by (simp add: pathVariables_def)
  show ?thesis
    using Inl by (simp add: syncBMC_def p renders_def)
next
  case (Inr path)
  then have p: "pb \<lparr>PathVariables.Region = ExtractRegionFromBMC bmc regionLabelKey,
                PathVariables.Hostname = GetHostnameFromBMC bmc,
                PathVariables.Username = username\<rparr> = Inr path"
    by (simp add: pathVariables_def)
  have rn: "renders pb regionLabelKey username bmc"
    using Inr by (simp add: renders_def)
  obtain ex s1 where e: "SecretExists be path (stores (world l)) = (ex, s1)"
    by (cases "SecretExists be path (stores (world l))") auto
  obtain rd s2 where r: "ReadSecret be path s1 = (rd, s2)"
    by (cases "ReadSecret be path s1") auto
  note nu = needsUpdate_calls [OF e r, of password]
  obtain wr s3 where w: "WriteSecret be path
      [''username'' \<mapsto> VString username, ''password'' \<mapsto> VString password] s1 = (wr, s3)"
    by (cases "WriteSecret be path
      [''username'' \<mapsto> VString username, ''password'' \<mapsto> VString password] s1") auto
  obtain wr' s3' where w': "WriteSecret be path
      [''username'' \<mapsto> VString username, ''password'' \<mapsto> VString password] s2 = (wr', s3')"
    by (cases "WriteSecret be path
      [''username'' \<mapsto> VString username, ''password'' \<mapsto> VString password] s2") auto
  show ?thesis
  proof (cases ex)
    case (Inl err)
    then show ?thesis
      by (simp add: syncBMC_def p nu rn)
  next
    case (Inr exists)
    show ?thesis
    proof (cases exists)
      case False
      with Inr w show ?thesis
        by (cases wr) (simp_all add: syncBMC_def p nu rn Event_def)
    next
      case True
      show ?thesis
      proof (cases rd)
        case (Inl err)
        with Inr True show ?thesis
          by (simp add: syncBMC_def p nu rn)
      next
        case rd: (Inr d)
        show ?thesis
        proof (cases "passwordField d = Some password")
          case True
          with Inr \<open>exists\<close> rd show ?thesis
            by (simp add: syncBMC_def p nu rn)
        next
          case False
          with Inr \<open>exists\<close> rd w' show ?thesis
            by (cases wr') (simp_all add: syncBMC_def p nu rn Event_def)
        qed
      qed
    qed
  qed
qed

text \<open>The same for the whole loop over the devices.\<close>
lemma syncBMCs_loop:
  "\<exists>new. calls (world (syncBMCs be pb engine regionLabelKey username password syncTime bmcs l))
            = calls (world l) @ new
     \<and> cluster (world (syncBMCs be pb engine regionLabelKey username password syncTime bmcs l))
            = cluster (world l)
     \<and> length (backendPaths (syncBMCs be pb engine regionLabelKey username password syncTime bmcs l))
            = length (backendPaths l) + length bmcs
     \<and> syncSuccess (syncBMCs be pb engine regionLabelKey username password syncTime bmcs l)
         + syncErrors (syncBMCs be pb engine regionLabelKey username password syncTime bmcs l)
            = syncSuccess l + syncErrors l + int (length bmcs)
     \<and> syncSuccess l \<le> syncSuccess (syncBMCs be pb engine regionLabelKey username password syncTime bmcs l)
     \<and> syncErrors (syncBMCs be pb engine regionLabelKey username password syncTime bmcs l)
            = syncErrors l
              + int (length (filter (\<lambda>bmc. \<not> renders pb regionLabelKey username bmc) bmcs))
              + int (length (filter failedCall new))"
proof (induction bmcs arbitrary: l)
  case Nil
  then show ?case by simp
next
  case (Cons bmc bmcs)
  let ?l1 = "syncBMC be pb engine regionLabelKey username password syncTime bmc l"
  obtain new1 where s1: "calls (world ?l1) = calls (world l) @ new1"
      "cluster (world ?l1) = cluster (world l)"
      "length (backendPaths ?l1) = length (backendPaths l) + 1"
      "syncSuccess ?l1 + syncErrors ?l1 = syncSuccess l + syncErrors l + 1"
      "syncSuccess l \<le> syncSuccess ?l1"
      "syncErrors ?l1 = syncErrors l + (if renders pb regionLabelKey username bmc then 0 else 1)
              + int (length (filter failedCall new1))"
    using syncBMC_step [of be pb engine regionLabelKey username password syncTime bmc l] by blast
  let ?l2 = "syncBMCs be pb engine regionLabelKey username password syncTime bmcs ?l1"
  obtain new2 where s2: "calls (world ?l2) = calls (world ?l1) @ new2"
      "cluster (world ?l2) = cluster (world ?l1)"
      "length (backendPaths ?l2) = length (backendPaths ?l1) + length bmcs"
      "syncSuccess ?l2 + syncErrors ?l2 = syncSuccess ?l1 + syncErrors ?l1 + int (length bmcs)"
      "syncSuccess ?l1 \<le> syncSuccess ?l2"
      "syncErrors ?l2 = syncErrors ?l1
              + int (length (filter (\<lambda>bmc. \<not> renders pb regionLabelKey username bmc) bmcs))
              + int (length (filter failedCall new2))"
    using Cons.IH [of ?l1] by blast
  have "calls (world ?l2) = calls (world l) @ (new1 @ new2)"
    using s1(1) s2(1) by simp
  moreover have "syncErrors ?l2 = syncErrors l
              + int (length (filter (\<lambda>bmc. \<not> renders pb regionLabelKey username bmc) (bmc # bmcs)))
              + int (length (filter failedCall (new1 @ new2)))"
    using s1(6) s2(6) by simp
  ultimately show ?case
    using s1 s2 by (intro exI [of _ "new1 @ new2"]) simp
qed

text \<open>After \<open>setCondition\<close> the first condition of the new condition's type has its status and reason.\<close>
lemma setCondition_find:
  "\<exists>c. find (\<lambda>c. Condition.Type c = Condition.Type newCondition) (setCondition conditions newCondition) = Some c
     \<and> Condition.Status c = Condition.Status newCondition \<and> Reason c = Reason newCondition"
  by (induction conditions) auto

text \<open>The derived condition is the spec's coarse condition of the two counts.\<close>

lemma syncedCondition_coarse:
  "0 \<le> successfulPaths \<Longrightarrow> 0 \<le> failedPaths \<Longrightarrow>
   Condition.Type (syncedCondition generation now totalPaths successfulPaths failedPaths) = ''Synced''
   \<and> (Condition.Status (syncedCondition generation now totalPaths successfulPaths failedPaths),
       Reason (syncedCondition generation now totalPaths successfulPaths failedPaths))
      = spec_coarse_condition successfulPaths failedPaths"
  by (simp add: syncedCondition_def spec_coarse_condition_def)

text \<open>Lookups in the registry after an update, a creation and a removal.\<close>
lemma getByName_name: "getByName objs name = Some obj \<Longrightarrow> ObjectMeta.Name obj = name"
  by (induction objs) (auto simp: getByName_def split: if_splits)

lemma getByName_putByName:
  "getByName objs (ObjectMeta.Name obj) = Some old \<Longrightarrow>
   getByName (putByName obj objs) (ObjectMeta.Name obj) = Some obj"
  by (induction objs) (auto simp: getByName_def putByName_def split: if_splits)

lemma getByName_append:
  "getByName objs (ObjectMeta.Name obj) = None \<Longrightarrow>
   getByName (objs @ [obj]) (ObjectMeta.Name obj) = Some obj"
  by (induction objs) (auto simp: getByName_def split: if_splits)

lemma getByName_removeByName: "getByName (removeByName name objs) name = None"
  by (induction objs) (auto simp: getByName_def removeByName_def)

text \<open>When the registry accepts the requests, \<open>updateSyncStatus\<close> persists the counts it is given.\<close>
lemma updateSyncStatus_persists:
  assumes "clientErr c GetSyncStatus = None"
    and "clientErr c CreateSyncStatus = None"
    and "clientErr c UpdateSyncStatus = None"
  shows "\<exists>st. getByName
             (syncStatuses (snd (updateSyncStatus now name paths totalPaths successfulPaths failedPaths c)))
             (name @ ''-sync-status'') = Some st
         \<and> BackendPaths (Status st) = paths
         \<and> TotalPaths (Status st) = totalPaths
         \<and> SuccessfulPaths (Status st) = successfulPaths
         \<and> FailedPaths (Status st) = failedPaths
         \<and> (\<exists>conditions generation. Conditions (Status st) =
               setCondition conditions
                 (syncedCondition generation now totalPaths successfulPaths failedPaths))"
proof -
  let ?key = "name @ ''-sync-status''"
  let ?status = "\<lambda>st0. \<lparr>BackendPaths = paths, LastSyncAttempt = now, TotalPaths = totalPaths,
                   SuccessfulPaths = successfulPaths, FailedPaths = failedPaths,
                   Conditions =
                     setCondition (Conditions (Status st0))
                       (syncedCondition (Generation st0) now
                          totalPaths successfulPaths failedPaths)\<rparr>"
  have upd: "getByName (syncStatuses (snd (updateSyncStatusStatus c1 (st0\<lparr>Status := ?status st0\<rparr>)))) ?key
              = Some (st0\<lparr>Status := ?status st0\<rparr>)"
    if "getByName (syncStatuses c1) ?key = Some st0" and "clientErr c1 UpdateSyncStatus = None"
    for c1 and st0 :: BMCSecretSyncStatus
  proof -
    have n: "ObjectMeta.Name (st0\<lparr>Status := ?status st0\<rparr>) = ?key"
      using getByName_name [OF that(1)] by simp
    have "getByName (syncStatuses c1) (ObjectMeta.Name (st0\<lparr>Status := ?status st0\<rparr>)) = Some st0"
      using that(1) n by simp
    from getByName_putByName [OF this] that(2) this n show ?thesis
      by (simp add: updateSyncStatusStatus_def)
  qed
  have fin: "\<exists>st. Some (st0\<lparr>Status := ?status st0\<rparr>) = Some st
         \<and> BackendPaths (Status st) = paths
         \<and> TotalPaths (Status st) = totalPaths
         \<and> SuccessfulPaths (Status st) = successfulPaths
         \<and> FailedPaths (Status st) = failedPaths
         \<and> (\<exists>conditions generation. Conditions (Status st) =
               setCondition conditions
                 (syncedCondition generation now totalPaths successfulPaths failedPaths))"
    for st0 :: BMCSecretSyncStatus
    by auto
  show ?thesis
  proof (cases "getByName (syncStatuses c) ?key")
    case (Some st0)
    have "updateSyncStatus now name paths totalPaths successfulPaths failedPaths c
          = updateSyncStatusStatus c (st0\<lparr>Status := ?status st0\<rparr>)"
      using Some assms by (simp add: updateSyncStatus_def getSyncStatus_def Let_def)
    with upd [OF Some assms(3)] fin [of st0] show ?thesis by simp
  next
    case None
    let ?obj = "\<lparr>ObjectMeta.Name = ?key, Labels = None, Generation = 0,
                 DeletionTimestamp = None, Finalizers = [],
                 SpecBMCSecretRef = name,
                 Status = \<lparr>BackendPaths = [], LastSyncAttempt = 0, TotalPaths = 0,
                           SuccessfulPaths = 0, FailedPaths = 0, Conditions = []\<rparr>\<rparr>"
    let ?c1 = "c\<lparr>syncStatuses := syncStatuses c @ [?obj]\<rparr>"
    have cr: "createSyncStatus c ?obj = (None, ?c1)"
      using None assms by (simp add: createSyncStatus_def)
    have g: "getByName (syncStatuses ?c1) ?key = Some ?obj"
      using getByName_append [of "syncStatuses c" ?obj] None by simp
    have "updateSyncStatus now name paths totalPaths successfulPaths failedPaths c
          = updateSyncStatusStatus ?c1 (?obj\<lparr>Status := ?status ?obj\<rparr>)"
      using None assms cr g by (simp add: updateSyncStatus_def getSyncStatus_def Let_def)
    moreover have "clientErr ?c1 UpdateSyncStatus = None"
      using assms by simp
    ultimately show ?thesis
      using upd [OF g] fin [of ?obj] by simp
  qed
qed




text \<open>The loop over the matching engines, each with the loop over the devices.\<close>
lemma syncEngines_loop:
  "\<exists>new. calls (world (syncEngines regionLabelKey username password syncTime bmcs ebs l))
            = calls (world l) @ new
     \<and> cluster (world (syncEngines regionLabelKey username password syncTime bmcs ebs l))
            = cluster (world l)
     \<and> length (backendPaths (syncEngines regionLabelKey username password syncTime bmcs ebs l))
            = length (backendPaths l) + length ebs * length bmcs
     \<and> syncSuccess (syncEngines regionLabelKey username password syncTime bmcs ebs l)
         + syncErrors (syncEngines regionLabelKey username password syncTime bmcs ebs l)
            = syncSuccess l + syncErrors l + int (length ebs * length bmcs)
     \<and> syncSuccess l \<le> syncSuccess (syncEngines regionLabelKey username password syncTime bmcs ebs l)
     \<and> syncErrors (syncEngines regionLabelKey username password syncTime bmcs ebs l)
            = syncErrors l
              + int (sum_list (map (\<lambda>eb. length (filter
                   (\<lambda>bmc. \<not> renders (PathBuilder eb) regionLabelKey username bmc) bmcs)) ebs))
              + int (length (filter failedCall new))"
proof (induction ebs arbitrary: l)
  case Nil
  then show ?case by simp
next
  case (Cons eb ebs)
  let ?l1 = "syncBMCs (EngineBackend.Backend eb) (PathBuilder eb) (Some (EngineName eb))
               regionLabelKey username password syncTime bmcs l"
  obtain new1 where s1: "calls (world ?l1) = calls (world l) @ new1"
      "cluster (world ?l1) = cluster (world l)"
      "length (backendPaths ?l1) = length (backendPaths l) + length bmcs"
      "syncSuccess ?l1 + syncErrors ?l1 = syncSuccess l + syncErrors l + int (length bmcs)"
      "syncSuccess l \<le> syncSuccess ?l1"
      "syncErrors ?l1 = syncErrors l
         + int (length (filter (\<lambda>bmc. \<not> renders (PathBuilder eb) regionLabelKey username bmc) bmcs))
         + int (length (filter failedCall new1))"
    using syncBMCs_loop [of "EngineBackend.Backend eb" "PathBuilder eb" "Some (EngineName eb)"
            regionLabelKey username password syncTime bmcs l] by blast
  let ?l2 = "syncEngines regionLabelKey username password syncTime bmcs ebs ?l1"
  obtain new2 where s2: "calls (world ?l2) = calls (world ?l1) @ new2"
      "cluster (world ?l2) = cluster (world ?l1)"
      "length (backendPaths ?l2) = length (backendPaths ?l1) + length ebs * length bmcs"
      "syncSuccess ?l2 + syncErrors ?l2 = syncSuccess ?l1 + syncErrors ?l1 + int (length ebs * length bmcs)"
      "syncSuccess ?l1 \<le> syncSuccess ?l2"
      "syncErrors ?l2 = syncErrors ?l1
         + int (sum_list (map (\<lambda>eb. length (filter
              (\<lambda>bmc. \<not> renders (PathBuilder eb) regionLabelKey username bmc) bmcs)) ebs))
         + int (length (filter failedCall new2))"
    using Cons.IH [of ?l1] by blast
  show ?case
    using s1 s2 by (intro exI [of _ "new1 @ new2"]) (simp add: algebra_simps)
qed

text \<open>
  The counterpart for a multi-destination pass: with E matching engines and D devices the
  N of the claim is E * D.
\<close>
lemma reconcileMultiEngine_partial_failure:
  assumes "GetRegionLabelKey (BackendFactory r) = Inr regionLabelKey"
    and "GetEngineBackends (BackendFactory r) (Labels bmcSecret) = Inr ebs"
    and "ebs \<noteq> []"
    and "clientErr (cluster w) GetSyncStatus = None"
    and "clientErr (cluster w) CreateSyncStatus = None"
    and "clientErr (cluster w) UpdateSyncStatus = None"
    and "reconcileMultiEngine r bmcSecret bmcs username password w = (res, w')"
  shows "\<exists>st c. getByName (syncStatuses (cluster w')) (ObjectMeta.Name bmcSecret @ ''-sync-status'') = Some st
      \<and> TotalPaths (Status st) = int (length ebs * length bmcs)
      \<and> SuccessfulPaths (Status st) + FailedPaths (Status st) = int (length ebs * length bmcs)
      \<and> find (\<lambda>c. Condition.Type c = ''Synced'') (Conditions (Status st)) = Some c
      \<and> (Condition.Status c, Reason c)
          = spec_coarse_condition (SuccessfulPaths (Status st)) (FailedPaths (Status st))
      \<and> ((\<forall>eb \<in> set ebs. \<forall>bmc \<in> set bmcs. renders (PathBuilder eb) regionLabelKey username bmc)
           \<and> (\<exists>path secretData err.
                 filter failedCall (callsSince w w') = [WriteCall path secretData (Some err)])
          \<longrightarrow> SuccessfulPaths (Status st) = int (length ebs * length bmcs) - 1
              \<and> FailedPaths (Status st) = 1)"
proof -
  let ?start = "\<lparr>syncErrors = 0, syncSuccess = 0, backendPaths = [], world = w\<rparr>"
  let ?l = "syncEngines regionLabelKey username password (Now r) bmcs ebs ?start"
  let ?n = "int (length ebs * length bmcs)"
  obtain new where loop: "calls (world ?l) = calls w @ new"
      "cluster (world ?l) = cluster w"
      "length (backendPaths ?l) = length ebs * length bmcs"
      "syncSuccess ?l + syncErrors ?l = ?n"
      "0 \<le> syncSuccess ?l"
      "syncErrors ?l = int (sum_list (map (\<lambda>eb. length (filter
              (\<lambda>bmc. \<not> renders (PathBuilder eb) regionLabelKey username bmc) bmcs)) ebs))
              + int (length (filter failedCall new))"
    using syncEngines_loop [of regionLabelKey username "password" "Now r" bmcs ebs ?start]
    by auto
  have nonneg: "0 \<le> syncErrors ?l"
    using loop(6) by simp
  let ?c = "snd (updateSyncStatus (Now r) (ObjectMeta.Name bmcSecret) (backendPaths ?l)
                   ?n (syncSuccess ?l) (syncErrors ?l) (cluster w))"
  have w': "cluster w' = ?c \<and> calls w' = calls w @ new"
    using assms(1,2,3,7) loop(1,2,3)
    by (auto simp: reconcileMultiEngine_def Let_def Event_def)
  obtain st conditions generation where st:
      "getByName (syncStatuses ?c) (ObjectMeta.Name bmcSecret @ ''-sync-status'') = Some st"
      "TotalPaths (Status st) = ?n"
      "SuccessfulPaths (Status st) = syncSuccess ?l"
      "FailedPaths (Status st) = syncErrors ?l"
      "Conditions (Status st) = setCondition conditions
         (syncedCondition generation (Now r) ?n (syncSuccess ?l) (syncErrors ?l))"
    using updateSyncStatus_persists [OF assms(4,5,6), of "Now r" "ObjectMeta.Name bmcSecret"
            "backendPaths ?l" ?n "syncSuccess ?l" "syncErrors ?l"]
    by blast
  let ?new = "syncedCondition generation (Now r) ?n (syncSuccess ?l) (syncErrors ?l)"
  note coarse = syncedCondition_coarse [OF loop(5) nonneg, of generation "Now r" ?n]
  obtain c where c: "find (\<lambda>c. Condition.Type c = ''Synced'') (Conditions (Status st)) = Some c"
      "Condition.Status c = Condition.Status ?new" "Reason c = Reason ?new"
    using setCondition_find [of ?new conditions] coarse st(5) by auto
  have one: "syncSuccess ?l = ?n - 1 \<and> syncErrors ?l = 1"
    if "\<forall>eb \<in> set ebs. \<forall>bmc \<in> set bmcs. renders (PathBuilder eb) regionLabelKey username bmc"
      and "\<exists>path secretData err. filter failedCall (callsSince w w') = [WriteCall path secretData (Some err)]"
  proof -
    have "\<And>eb. eb \<in> set ebs \<Longrightarrow>
            filter (\<lambda>bmc. \<not> renders (PathBuilder eb) regionLabelKey username bmc) bmcs = []"
      using that(1) by (simp add: filter_empty_conv)
    then have "sum_list (map (\<lambda>eb. length (filter
              (\<lambda>bmc. \<not> renders (PathBuilder eb) regionLabelKey username bmc) bmcs)) ebs) = 0"
      by simp
    moreover have "callsSince w w' = new"
      using w' by (simp add: callsSince_def)
    ultimately have "syncErrors ?l = 1"
      using loop(6) that(2) by auto
    with loop(4) show ?thesis by simp
  qed
  show ?thesis
    using w' st c coarse loop(4) one by auto
qed

subsection \<open>The writes of a pass\<close>

text \<open>The loop body on a pair.\<close>
lemma syncPair_apply:
  "syncPair regionLabelKey username password syncTime l (be, pb, engine, bmc) =
     syncBMC be pb engine regionLabelKey username password syncTime bmc l"
  by (simp add: syncPair_def)

text \<open>Both loops are the loop body folded over the pairs.\<close>
lemma syncBMCs_pairs:
  "syncBMCs be pb engine regionLabelKey username password syncTime bmcs l =
   foldl (syncPair regionLabelKey username password syncTime) l (map (\<lambda>bmc. (be, pb, engine, bmc)) bmcs)"
  by (induction bmcs arbitrary: l) (simp_all add: syncPair_apply)

lemma syncEngines_pairs:
  "syncEngines regionLabelKey username password syncTime bmcs ebs l =
   foldl (syncPair regionLabelKey username password syncTime) l (multiEnginePairs ebs bmcs)"
  by (induction ebs arbitrary: l) (simp_all add: multiEnginePairs_def syncBMCs_pairs)

text \<open>The loop body neither reads nor writes the registry.\<close>
lemma needsUpdate_cluster:
  "needsUpdate be path password (w\<lparr>cluster := c\<rparr>) =
     (fst (needsUpdate be path password w), (snd (needsUpdate be path password w))\<lparr>cluster := c\<rparr>)"
  by (simp add: needsUpdate_def Let_def split: prod.splits sum.splits option.splits val.splits)

lemma syncBMC_cluster:
  "syncBMC be pb engine regionLabelKey username password syncTime bmc (l\<lparr>world := (world l)\<lparr>cluster := c\<rparr>\<rparr>) =
     (syncBMC be pb engine regionLabelKey username password syncTime bmc l)
       \<lparr>world := (world (syncBMC be pb engine regionLabelKey username password syncTime bmc l))\<lparr>cluster := c\<rparr>\<rparr>"
  by (simp add: syncBMC_def needsUpdate_cluster Event_def Let_def
        split: prod.splits sum.splits option.splits bool.splits)

lemma syncPairs_cluster:
  "foldl (syncPair regionLabelKey username password syncTime) (l\<lparr>world := (world l)\<lparr>cluster := c\<rparr>\<rparr>) pairs =
     (foldl (syncPair regionLabelKey username password syncTime) l pairs)
       \<lparr>world := (world (foldl (syncPair regionLabelKey username password syncTime) l pairs))\<lparr>cluster := c\<rparr>\<rparr>"
proof (induction pairs arbitrary: l)
  case Nil
  then show ?case by simp
next
  case (Cons pair pairs)
  obtain be pb engine bmc where pair: "pair = (be, pb, engine, bmc)"
    by (cases pair) auto
  show ?case
    using Cons.IH [of "syncBMC be pb engine regionLabelKey username password syncTime bmc l"]
    by (simp add: pair syncPair_apply syncBMC_cluster)
qed

text \<open>The pairs only append to the call log, and each appends one entry.\<close>
lemma syncPairs_calls:
  "\<exists>new. calls (world (foldl (syncPair regionLabelKey username password syncTime) l pairs))
           = calls (world l) @ new"
proof (induction pairs arbitrary: l)
  case Nil
  then show ?case by simp
next
  case (Cons pair pairs)
  obtain be pb engine bmc where pair: "pair = (be, pb, engine, bmc)"
    by (cases pair) auto
  let ?l1 = "syncBMC be pb engine regionLabelKey username password syncTime bmc l"
  obtain new1 where "calls (world ?l1) = calls (world l) @ new1"
    using syncBMC_step [of be pb engine regionLabelKey username password syncTime bmc l] by blast
  moreover obtain new2 where
    "calls (world (foldl (syncPair regionLabelKey username password syncTime) ?l1 pairs))
       = calls (world ?l1) @ new2"
    using Cons.IH [of ?l1] by blast
  ultimately show ?case
    by (simp add: pair syncPair_apply)
qed

lemma syncBMC_appends_entry:
  "\<exists>entry. backendPaths (syncBMC be pb engine regionLabelKey username password syncTime bmc l)
            = backendPaths l @ [entry]"
  by (auto simp: syncBMC_def Let_def split: sum.splits prod.splits bool.splits option.splits)


lemma syncPairs_entries:
  "\<exists>entries. backendPaths (foldl (syncPair regionLabelKey username password syncTime) l pairs)
           = backendPaths l @ entries"
proof (induction pairs arbitrary: l)
  case Nil
  then show ?case by simp
next
  case (Cons pair pairs)
  obtain be pb engine bmc where pair: "pair = (be, pb, engine, bmc)"
    by (cases pair) auto
  let ?l1 = "syncBMC be pb engine regionLabelKey username password syncTime bmc l"
  obtain entry where "backendPaths ?l1 = backendPaths l @ [entry]"
    using syncBMC_appends_entry by blast
  moreover obtain entries where
    "backendPaths (foldl (syncPair regionLabelKey username password syncTime) ?l1 pairs)
       = backendPaths ?l1 @ entries"
    using Cons.IH [of ?l1] by blast
  ultimately show ?case
    by (simp add: pair syncPair_apply)
qed

lemma syncPairs_length:
  "length (backendPaths (foldl (syncPair regionLabelKey username password syncTime) l pairs))
     = length (backendPaths l) + length pairs"
proof (induction pairs arbitrary: l)
  case Nil
  then show ?case by simp
next
  case (Cons pair pairs)
  obtain be pb engine bmc where pair: "pair = (be, pb, engine, bmc)"
    by (cases pair) auto
  let ?l1 = "syncBMC be pb engine regionLabelKey username password syncTime bmc l"
  obtain entry where "backendPaths ?l1 = backendPaths l @ [entry]"
    using syncBMC_appends_entry by blast
  then show ?case
    using Cons.IH [of ?l1] by (simp add: pair syncPair_apply)
qed


text \<open>
  A pass that finds the record, labelled and not being deleted, with its finalizer set
  or the registry accepting to add it, devices that reference it and credentials, runs
  the loop body over the pairs of its mode, on the stores as it found them, and hands
  the entries and the counts to \<open>updateSyncStatus\<close>.
\<close>
lemma Reconcile_pairs:
  fixes w :: "'s World"
  assumes found: "getBMCSecret (cluster w) req = Found bmcSecret"
    and label: "GetSyncLabel (BackendFactory r) = Inr syncLabel"
    and labelled: "syncLabel = [] \<or> (\<exists>ls. Labels bmcSecret = Some ls \<and> index ls syncLabel \<noteq> [])"
    and live: "DeletionTimestamp bmcSecret = None"
    and fin: "ContainsFinalizer bmcSecret bmcSecretFinalizer \<or> clientErr (cluster w) UpdateBMCSecret = None"
    and list: "clientErr (cluster w) ListBMC = None"
    and bmcs: "bmcs = filter (\<lambda>bmc. BMCSecretRef (Spec bmc) = ObjectMeta.Name bmcSecret) (bmcList (cluster w))"
    and creds: "ExtractCredentials r (AddFinalizer bmcSecret bmcSecretFinalizer) = Inr (username, password)"
    and key: "GetRegionLabelKey (BackendFactory r) = Inr regionLabelKey"
    and mode: "(HasMultiEngineConfig (BackendFactory r) = Inr False
                 \<and> GetBackend (BackendFactory r) = Inr be0 \<and> GetPathBuilder (BackendFactory r) = Inr pb0
                 \<and> pairs = singleEnginePairs be0 pb0 bmcs)
             \<or> (HasMultiEngineConfig (BackendFactory r) = Inr True
                 \<and> GetEngineBackends (BackendFactory r) (Labels bmcSecret) = Inr ebs
                 \<and> pairs = multiEnginePairs ebs bmcs)"
    and ne: "pairs \<noteq> []"
    and run: "Reconcile r req w = (res, w')"
  shows "\<exists>c total. clientErr c = clientErr (cluster w) \<and> syncStatuses c = syncStatuses (cluster w)
     \<and> stores w' = stores (world (foldl (syncPair regionLabelKey username password (Now r)) (startLoop w) pairs))
     \<and> calls w' = calls (world (foldl (syncPair regionLabelKey username password (Now r)) (startLoop w) pairs))
     \<and> cluster w' = snd (updateSyncStatus (Now r) (ObjectMeta.Name bmcSecret)
          (backendPaths (foldl (syncPair regionLabelKey username password (Now r)) (startLoop w) pairs))
          total
          (syncSuccess (foldl (syncPair regionLabelKey username password (Now r)) (startLoop w) pairs))
          (syncErrors (foldl (syncPair regionLabelKey username password (Now r)) (startLoop w) pairs)) c)"
proof -
  let ?f = "syncPair regionLabelKey username password (Now r)"
  let ?b1 = "AddFinalizer bmcSecret bmcSecretFinalizer"
  let ?L = "foldl ?f (startLoop w) pairs"
  have get: "getByName (bmcSecrets (cluster w)) req = Some bmcSecret"
    using found by (simp add: getBMCSecret_def split: option.splits)
  have name: "ObjectMeta.Name bmcSecret = req"
    using getByName_name [OF get] .
  have b1: "(if \<not> ContainsFinalizer bmcSecret bmcSecretFinalizer then ?b1 else bmcSecret) = ?b1"
    by (simp add: ContainsFinalizer_def AddFinalizer_def)
  have b1n: "ObjectMeta.Name ?b1 = ObjectMeta.Name bmcSecret" and b1l: "Labels ?b1 = Labels bmcSecret"
    by (simp_all add: AddFinalizer_def)
  obtain c where c: "(if \<not> ContainsFinalizer bmcSecret bmcSecretFinalizer
                       then updateBMCSecret (cluster w) ?b1 else (None, cluster w)) = (None, c)"
      "clientErr c = clientErr (cluster w)" "syncStatuses c = syncStatuses (cluster w)"
      "bmcList c = bmcList (cluster w)"
  proof (cases "ContainsFinalizer bmcSecret bmcSecretFinalizer")
    case True
    then show ?thesis using that [of "cluster w"] by simp
  next
    case False
    with fin have "clientErr (cluster w) UpdateBMCSecret = None" by simp
    then have "updateBMCSecret (cluster w) ?b1
                 = (None, (cluster w)\<lparr>bmcSecrets := putByName ?b1 (bmcSecrets (cluster w))\<rparr>)"
      using get name b1n by (simp add: updateBMCSecret_def)
    with False show ?thesis
      using that [of "(cluster w)\<lparr>bmcSecrets := putByName ?b1 (bmcSecrets (cluster w))\<rparr>"] by simp
  qed
  let ?w1 = "w\<lparr>cluster := c\<rparr>"
  have bmcs_ne: "bmcs \<noteq> []"
    using mode ne by (auto simp: singleEnginePairs_def multiEnginePairs_def)
  have find: "FindBMCsForSecret c (ObjectMeta.Name bmcSecret) = Inr bmcs"
    using list bmcs c(2,4) by (simp add: FindBMCsForSecret_def)
  have dispatch: "Reconcile r req w =
      (case HasMultiEngineConfig (BackendFactory r) of
         Inl err \<Rightarrow> ((\<lparr>RequeueAfter = requeueAfterError\<rparr>, Some err), ?w1)
       | Inr hasMultiEngine \<Rightarrow>
           if hasMultiEngine then reconcileMultiEngine r ?b1 bmcs username password ?w1
           else reconcileSingleEngine r ?b1 bmcs username password ?w1)"
  proof (cases "syncLabel = []")
    case True
    with found label live c(1) find bmcs_ne creds show ?thesis
      by (simp add: Reconcile_def b1 b1n Let_def)
  next
    case False
    with labelled obtain ls where "Labels bmcSecret = Some ls" "index ls syncLabel \<noteq> []"
      by auto
    with False found label live c(1) find bmcs_ne creds show ?thesis
      by (simp add: Reconcile_def b1 b1n Let_def)
  qed
  have L1: "foldl ?f (startLoop ?w1) ps = (foldl ?f (startLoop w) ps)
              \<lparr>world := (world (foldl ?f (startLoop w) ps))\<lparr>cluster := c\<rparr>\<rparr>" for ps
    using syncPairs_cluster [where regionLabelKey = regionLabelKey and username = username
            and password = password and syncTime = "Now r" and l = "startLoop w" and c = c and pairs = ps]
    by (simp add: startLoop_def)
  from mode show ?thesis
  proof
    assume single: "HasMultiEngineConfig (BackendFactory r) = Inr False
                 \<and> GetBackend (BackendFactory r) = Inr be0 \<and> GetPathBuilder (BackendFactory r) = Inr pb0
                 \<and> pairs = singleEnginePairs be0 pb0 bmcs"
    have loop: "syncBMCs be0 pb0 None regionLabelKey username password (Now r) bmcs
                  \<lparr>syncErrors = 0, syncSuccess = 0, backendPaths = [], world = ?w1\<rparr>
                = ?L\<lparr>world := (world ?L)\<lparr>cluster := c\<rparr>\<rparr>"
      using single L1 [of pairs] by (simp add: syncBMCs_pairs singleEnginePairs_def startLoop_def)
    have "reconcileSingleEngine r ?b1 bmcs username password ?w1 = (res, w')"
      using run dispatch single by simp
    then have "stores w' = stores (world ?L) \<and> calls w' = calls (world ?L)
        \<and> cluster w' = snd (updateSyncStatus (Now r) (ObjectMeta.Name bmcSecret) (backendPaths ?L)
             (int (length bmcs)) (syncSuccess ?L) (syncErrors ?L) c)"
      using single key loop
      by (auto simp: reconcileSingleEngine_def b1n Let_def Event_def)
    with c(2,3) show ?thesis by blast
  next
    assume multi: "HasMultiEngineConfig (BackendFactory r) = Inr True
                 \<and> GetEngineBackends (BackendFactory r) (Labels bmcSecret) = Inr ebs
                 \<and> pairs = multiEnginePairs ebs bmcs"
    have ebs_ne: "ebs \<noteq> []"
      using multi ne by (auto simp: multiEnginePairs_def)
    have loop: "syncEngines regionLabelKey username password (Now r) bmcs ebs
                  \<lparr>syncErrors = 0, syncSuccess = 0, backendPaths = [], world = ?w1\<rparr>
                = ?L\<lparr>world := (world ?L)\<lparr>cluster := c\<rparr>\<rparr>"
      using multi L1 [of pairs] by (simp add: syncEngines_pairs startLoop_def)
    have "reconcileMultiEngine r ?b1 bmcs username password ?w1 = (res, w')"
      using run dispatch multi by simp
    then have "stores w' = stores (world ?L) \<and> calls w' = calls (world ?L)
        \<and> cluster w' = snd (updateSyncStatus (Now r) (ObjectMeta.Name bmcSecret) (backendPaths ?L)
             (int (length (backendPaths ?L))) (syncSuccess ?L) (syncErrors ?L) c)"
      using multi key loop ebs_ne
      by (auto simp: reconcileMultiEngine_def b1n b1l Let_def Event_def)
    with c(2,3) show ?thesis by blast
  qed
qed

text \<open>
  Claim C1. In a pass of \<open>Reconcile\<close> that reaches the sync loop, in either mode, take
  any (destination, device) pair whose path renders, and the answers of the
  destination's store, as the pairs before it left it, to the existence check, to the
  read that follows it and to the write. The calls of the pass are those of the pairs
  before, then the pair's existence check (and read, when the path exists), then
  one write of the current credentials to the rendered path, with the store's answer, if
  and only if the path does not exist remotely, or it exists and the stored value is
  read and its password field is missing or not a string or differs from the current
  password, then the calls of the pairs after. The pair leaves the store as the write
  left it when it writes, and as the checks left it otherwise, and the pass leaves the
  stores as the pairs after it left them. When the stored password matches the current
  password the pair issues no write and its entry is \<open>Success\<close>; the entries are those
  of the persisted status record when the registry accepts the status requests.
\<close>
theorem Reconcile_writes_iff_needed:
  fixes w :: "'s World"
  assumes found: "getBMCSecret (cluster w) req = Found bmcSecret"
    and label: "GetSyncLabel (BackendFactory r) = Inr syncLabel"
    and labelled: "syncLabel = [] \<or> (\<exists>ls. Labels bmcSecret = Some ls \<and> index ls syncLabel \<noteq> [])"
    and live: "DeletionTimestamp bmcSecret = None"
    and fin: "ContainsFinalizer bmcSecret bmcSecretFinalizer \<or> clientErr (cluster w) UpdateBMCSecret = None"
    and list: "clientErr (cluster w) ListBMC = None"
    and bmcs: "bmcs = filter (\<lambda>bmc. BMCSecretRef (Spec bmc) = ObjectMeta.Name bmcSecret) (bmcList (cluster w))"
    and creds: "ExtractCredentials r (AddFinalizer bmcSecret bmcSecretFinalizer) = Inr (username, password)"
    and key: "GetRegionLabelKey (BackendFactory r) = Inr regionLabelKey"
    and mode: "(HasMultiEngineConfig (BackendFactory r) = Inr False
                 \<and> GetBackend (BackendFactory r) = Inr be0 \<and> GetPathBuilder (BackendFactory r) = Inr pb0
                 \<and> pairs = singleEnginePairs be0 pb0 bmcs)
             \<or> (HasMultiEngineConfig (BackendFactory r) = Inr True
                 \<and> GetEngineBackends (BackendFactory r) (Labels bmcSecret) = Inr ebs
                 \<and> pairs = multiEnginePairs ebs bmcs)"
    and split: "pairs = pre @ (be, pb, engine, bmc) # post"
    and path: "pb (pathVariables regionLabelKey username bmc) = Inr path"
    and lb: "lb = foldl (syncPair regionLabelKey username password (Now r)) (startLoop w) pre"
    and la: "la = syncPair regionLabelKey username password (Now r) lb (be, pb, engine, bmc)"
    and lf: "lf = foldl (syncPair regionLabelKey username password (Now r)) la post"
    and ex: "SecretExists be path (stores (world lb)) = (ex, s1)"
    and rd: "ReadSecret be path s1 = (rd, s2)"
    and wr: "WriteSecret be path [''username'' \<mapsto> VString username, ''password'' \<mapsto> VString password]
               (if ex = Inr False then s1 else s2) = (wr, s3)"
    and run: "Reconcile r req w = (res, w')"
  shows "callsSince w w' =
           callsSince w (world lb)
           @ (case ex of Inr True \<Rightarrow> [ExistsCall path ex, ReadCall path rd] | _ \<Rightarrow> [ExistsCall path ex])
           @ (if ex = Inr False \<or> (ex = Inr True \<and> (\<exists>d. rd = Inr d \<and> passwordField d \<noteq> Some password))
              then [WriteCall path [''username'' \<mapsto> VString username, ''password'' \<mapsto> VString password] wr]
              else [])
           @ callsSince (world la) (world lf)
       \<and> stores (world la) =
           (if ex = Inr False \<or> (ex = Inr True \<and> (\<exists>d. rd = Inr d \<and> passwordField d \<noteq> Some password))
            then s3 else (case ex of Inr True \<Rightarrow> s2 | _ \<Rightarrow> s1))
       \<and> stores w' = stores (world lf)
       \<and> (ex = Inr True \<and> (\<exists>d. rd = Inr d \<and> passwordField d = Some password) \<longrightarrow>
            SyncStatus (backendPaths lf ! length pre) = ''Success''
            \<and> Path (backendPaths lf ! length pre) = path
            \<and> BMCName (backendPaths lf ! length pre) = ObjectMeta.Name bmc)
       \<and> (clientErr (cluster w) GetSyncStatus = None \<and> clientErr (cluster w) CreateSyncStatus = None
            \<and> clientErr (cluster w) UpdateSyncStatus = None \<longrightarrow>
          (\<exists>st. getByName (syncStatuses (cluster w')) (ObjectMeta.Name bmcSecret @ ''-sync-status'') = Some st
              \<and> BackendPaths (Status st) = backendPaths lf))"
proof -
  let ?f = "syncPair regionLabelKey username password (Now r)"
  let ?data = "[''username'' \<mapsto> VString username, ''password'' \<mapsto> VString password]"
  let ?checks = "case ex of Inr True \<Rightarrow> [ExistsCall path ex, ReadCall path rd] | _ \<Rightarrow> [ExistsCall path ex]"
  let ?needed = "ex = Inr False \<or> (ex = Inr True \<and> (\<exists>d. rd = Inr d \<and> passwordField d \<noteq> Some password))"
  let ?writes = "if ?needed then [WriteCall path ?data wr] else []"
  have whole: "lf = foldl ?f (startLoop w) pairs"
    using split lb la lf by simp
  have ne: "pairs \<noteq> []"
    using split by simp
  obtain c total where pass: "clientErr c = clientErr (cluster w)"
      "syncStatuses c = syncStatuses (cluster w)"
      "stores w' = stores (world lf)" "calls w' = calls (world lf)"
      "cluster w' = snd (updateSyncStatus (Now r) (ObjectMeta.Name bmcSecret) (backendPaths lf) total
                           (syncSuccess lf) (syncErrors lf) c)"
    using Reconcile_pairs [OF found label labelled live fin list bmcs creds key mode ne run] whole
    by blast
  have step: "la = syncBMC be pb engine regionLabelKey username password (Now r) bmc lb"
    using la by (simp add: syncPair_apply)
  obtain new_b where nb: "calls (world lb) = calls w @ new_b"
    using syncPairs_calls [where l = "startLoop w" and pairs = pre and regionLabelKey = regionLabelKey
            and username = username and password = password and syncTime = "Now r"] lb
    by (auto simp: startLoop_def)
  obtain new_a where na: "calls (world lf) = calls (world la) @ new_a"
    using syncPairs_calls [where l = la and pairs = post and regionLabelKey = regionLabelKey
            and username = username and password = password and syncTime = "Now r"] lf
    by auto
  note pair = syncBMC_pair [where l = lb and pb = pb and be = be and engine = engine
                and syncTime = "Now r", OF path ex rd wr]
  have ca: "calls (world la) = calls (world lb) @ ?checks @ ?writes"
    using pair(1) step by simp
  have sa: "stores (world la) = (if ?needed then s3 else (case ex of Inr True \<Rightarrow> s2 | _ \<Rightarrow> s1))"
    using pair(2) step by simp
  have c1: "callsSince w w' = new_b @ ?checks @ ?writes @ new_a"
    using pass(4) na ca nb by (simp add: callsSince_def)
  have c2: "callsSince w (world lb) = new_b"
    using nb by (simp add: callsSince_def)
  have c3: "callsSince (world la) (world lf) = new_a"
    using na by (simp add: callsSince_def)
  have lenb: "length (backendPaths lb) = length pre"
    using syncPairs_length [where l = "startLoop w" and pairs = pre and regionLabelKey = regionLabelKey
            and username = username and password = password and syncTime = "Now r"] lb
    by (simp add: startLoop_def)
  obtain entry where entry: "backendPaths la = backendPaths lb @ [entry]"
      "Path entry = path" "BMCName entry = ObjectMeta.Name bmc"
      "SyncStatus entry =
         (if (ex = Inr False \<and> wr = None)
             \<or> (ex = Inr True \<and> (\<exists>d. rd = Inr d \<and> (passwordField d = Some password \<or> wr = None)))
          then ''Success'' else ''Failed'')"
    using pair(3) step by blast
  obtain entries where "backendPaths lf = backendPaths la @ entries"
    using syncPairs_entries [where l = la and pairs = post and regionLabelKey = regionLabelKey
            and username = username and password = password and syncTime = "Now r"] lf
    by auto
  then have nth: "backendPaths lf ! length pre = entry"
    using entry(1) lenb by (simp add: nth_append)
  have rec: "\<exists>st. getByName (syncStatuses (cluster w')) (ObjectMeta.Name bmcSecret @ ''-sync-status'') = Some st
              \<and> BackendPaths (Status st) = backendPaths lf"
    if "clientErr (cluster w) GetSyncStatus = None \<and> clientErr (cluster w) CreateSyncStatus = None
            \<and> clientErr (cluster w) UpdateSyncStatus = None"
    using updateSyncStatus_persists [of c "Now r" "ObjectMeta.Name bmcSecret" "backendPaths lf" total
            "syncSuccess lf" "syncErrors lf"] that pass(1,5)
    by auto
  show ?thesis
    using c1 c2 c3 sa pass(3) nth entry(2,3,4) rec by auto
qed

text \<open>
  The theorem at three passes on the mock stores. The store holds an old password: one
  write, and the store holds the current credentials afterwards. The store holds the
  current password: no write, and the persisted entry is \<open>Success\<close>. A record routed to
  two engines, at the second engine: its store holds the credentials afterwards.
\<close>
theorem Reconcile_writes_iff_needed_witness:
  "callsSince (storedWorld ''old'') (snd (Reconcile (mockReconciler (mockFactory [])) ''creds'' (storedWorld ''old'')))
     = [ExistsCall ''bmc/eu/host1/admin'' (Inr True),
        ReadCall ''bmc/eu/host1/admin'' (Inr (credentials ''admin'' ''old'')),
        WriteCall ''bmc/eu/host1/admin'' (credentials ''admin'' ''secret123'') None]
   \<and> secrets (stores (snd (Reconcile (mockReconciler (mockFactory [])) ''creds'' (storedWorld ''old''))) ''secret'')
        ''bmc/eu/host1/admin'' = Some (credentials ''admin'' ''secret123'')
   \<and> callsSince (storedWorld ''secret123'')
        (snd (Reconcile (mockReconciler (mockFactory [])) ''creds'' (storedWorld ''secret123'')))
     = [ExistsCall ''bmc/eu/host1/admin'' (Inr True),
        ReadCall ''bmc/eu/host1/admin'' (Inr (credentials ''admin'' ''secret123''))]
   \<and> (\<exists>st. getByName (syncStatuses (cluster
          (snd (Reconcile (mockReconciler (mockFactory [])) ''creds'' (storedWorld ''secret123'')))))
          ''creds-sync-status'' = Some st
        \<and> SyncStatus (BackendPaths (Status st) ! 0) = ''Success''
        \<and> Path (BackendPaths (Status st) ! 0) = ''bmc/eu/host1/admin'')
   \<and> callsSince routedWorld (snd (Reconcile (mockReconciler multiFactory) ''creds'' routedWorld))
     = [ExistsCall ''bmc/eu/host1/admin'' (Inr False),
        WriteCall ''bmc/eu/host1/admin'' (credentials ''admin'' ''secret123'') None,
        ExistsCall ''bmc/eu/host1/admin'' (Inr False),
        WriteCall ''bmc/eu/host1/admin'' (credentials ''admin'' ''secret123'') None]
   \<and> secrets (stores (snd (Reconcile (mockReconciler multiFactory) ''creds'' routedWorld)) ''critical/secret'')
        ''bmc/eu/host1/admin'' = Some (credentials ''admin'' ''secret123'')"
proof -
  let ?p = "''bmc/eu/host1/admin''"
  let ?R = "mockReconciler (mockFactory [])"
  let ?S = "exampleSecret None None []"
  let ?B = "exampleBMC ''bmc-1'' ''eu'' ''host1''"
  let ?be = "mockAt ''secret''"
  let ?data = "[''username'' \<mapsto> VString ''admin'', ''password'' \<mapsto> VString ''secret123'']"
  let ?f = "syncPair ''region'' ''admin'' ''secret123'' (Now ?R)"
  have inst: "callsSince (storedWorld stored) (snd (Reconcile ?R ''creds'' (storedWorld stored)))
       = (if stored \<noteq> ''secret123''
          then [ExistsCall ?p (Inr True), ReadCall ?p (Inr (credentials ''admin'' stored)),
                WriteCall ?p ?data None]
          else [ExistsCall ?p (Inr True), ReadCall ?p (Inr (credentials ''admin'' stored))])
     \<and> (stored \<noteq> ''secret123'' \<longrightarrow>
          stores (snd (Reconcile ?R ''creds'' (storedWorld stored)))
            = snd (WriteSecret ?be ?p ?data (stores (storedWorld stored))))
     \<and> (stored = ''secret123'' \<longrightarrow>
          (\<exists>st. getByName (syncStatuses (cluster (snd (Reconcile ?R ''creds'' (storedWorld stored)))))
                   ''creds-sync-status'' = Some st
               \<and> SyncStatus (BackendPaths (Status st) ! 0) = ''Success''
               \<and> Path (BackendPaths (Status st) ! 0) = ?p))" for stored
  proof -
    let ?W = "storedWorld stored"
    let ?la = "?f (startLoop ?W) (?be, defaultTemplate, None, ?B)"
    have found: "getBMCSecret (cluster ?W) ''creds'' = Found ?S"
      by (simp add: getBMCSecret_def getByName_def storedWorld_def exampleWorld_def exampleSecret_def)
    have label: "GetSyncLabel (BackendFactory ?R) = Inr []"
      by (simp add: mockReconciler_def mockFactory_def)
    have labelled: "([] :: string) = [] \<or> (\<exists>ls. Labels ?S = Some ls \<and> index ls [] \<noteq> [])"
      by simp
    have live: "DeletionTimestamp ?S = None"
      by (simp add: exampleSecret_def)
    have fin: "ContainsFinalizer ?S bmcSecretFinalizer \<or> clientErr (cluster ?W) UpdateBMCSecret = None"
      by (simp add: storedWorld_def exampleWorld_def)
    have list: "clientErr (cluster ?W) ListBMC = None"
      by (simp add: storedWorld_def exampleWorld_def)
    have bmcs: "[?B] = filter (\<lambda>bmc. BMCSecretRef (Spec bmc) = ObjectMeta.Name ?S) (bmcList (cluster ?W))"
      by (simp add: storedWorld_def exampleWorld_def exampleSecret_def exampleBMC_def)
    have creds: "ExtractCredentials ?R (AddFinalizer ?S bmcSecretFinalizer) = Inr (''admin'', ''secret123'')"
      by (simp add: mockReconciler_def dataCredentials_def AddFinalizer_def exampleSecret_def)
    have key: "GetRegionLabelKey (BackendFactory ?R) = Inr ''region''"
      by (simp add: mockReconciler_def mockFactory_def)
    have mode: "(HasMultiEngineConfig (BackendFactory ?R) = Inr False
                 \<and> GetBackend (BackendFactory ?R) = Inr ?be
                 \<and> GetPathBuilder (BackendFactory ?R) = Inr defaultTemplate
                 \<and> singleEnginePairs ?be defaultTemplate [?B] = singleEnginePairs ?be defaultTemplate [?B])
             \<or> (HasMultiEngineConfig (BackendFactory ?R) = Inr True
                 \<and> GetEngineBackends (BackendFactory ?R) (Labels ?S) = Inr []
                 \<and> singleEnginePairs ?be defaultTemplate [?B] = multiEnginePairs [] [?B])"
      by (simp add: mockReconciler_def mockFactory_def)
    have split: "singleEnginePairs ?be defaultTemplate [?B] = [] @ (?be, defaultTemplate, None, ?B) # []"
      by (simp add: singleEnginePairs_def)
    have path: "defaultTemplate (pathVariables ''region'' ''admin'' ?B) = Inr ?p"
      by (simp add: defaultTemplate_def pathVariables_def exampleBMC_def ExtractRegionFromBMC_def
            GetHostnameFromBMC_def)
    have lb: "startLoop ?W = foldl ?f (startLoop ?W) []"
      by simp
    have la: "?la = ?f (startLoop ?W) (?be, defaultTemplate, None, ?B)"
      by simp
    have lf: "?la = foldl ?f ?la []"
      by simp
    have ex: "SecretExists ?be ?p (stores (world (startLoop ?W))) = (Inr True, stores ?W)"
      by (simp add: mockAt_def startLoop_def storedWorld_def exampleWorld_def storesWith_def
            freshStores_def NewMockBackend_def)
    have rd: "ReadSecret ?be ?p (stores ?W) = (Inr (credentials ''admin'' stored), stores ?W)"
      by (simp add: mockAt_def storedWorld_def exampleWorld_def storesWith_def freshStores_def
            NewMockBackend_def)
    have wr: "WriteSecret ?be ?p ?data (if (Inr True :: error + bool) = Inr False then stores ?W else stores ?W)
                = (None, snd (WriteSecret ?be ?p ?data (stores ?W)))"
      by (simp add: mockAt_def storedWorld_def exampleWorld_def storesWith_def freshStores_def
            NewMockBackend_def)
    have run: "Reconcile ?R ''creds'' ?W = (fst (Reconcile ?R ''creds'' ?W), snd (Reconcile ?R ''creds'' ?W))"
      by simp
    have acc: "clientErr (cluster ?W) GetSyncStatus = None \<and> clientErr (cluster ?W) CreateSyncStatus = None
            \<and> clientErr (cluster ?W) UpdateSyncStatus = None"
      by (simp add: storedWorld_def exampleWorld_def)
    have pf: "passwordField (credentials ''admin'' stored) = Some stored"
      by (simp add: passwordField_def credentials_def)
    have nm: "ObjectMeta.Name ?S @ ''-sync-status'' = ''creds-sync-status''"
      by (simp add: exampleSecret_def)
    note t = Reconcile_writes_iff_needed [OF found label labelled live fin list bmcs creds key mode
                split path lb la lf ex rd wr run]
    have cs: "callsSince ?W (world (startLoop ?W)) = []" "callsSince (world ?la) (world ?la) = []"
      by (simp_all add: callsSince_def startLoop_def)
    from t acc pf nm cs show ?thesis
      by auto
  qed
  have s: "secrets (snd (WriteSecret ?be ?p ?data (stores (storedWorld ''old''))) ''secret'') ?p
             = Some (credentials ''admin'' ''secret123'')"
    by (simp add: mockAt_def storedWorld_def exampleWorld_def storesWith_def freshStores_def
          NewMockBackend_def credentials_def)
  have multi: "callsSince routedWorld (snd (Reconcile (mockReconciler multiFactory) ''creds'' routedWorld))
       = [ExistsCall ?p (Inr False), WriteCall ?p ?data None,
          ExistsCall ?p (Inr False), WriteCall ?p ?data None]
     \<and> secrets (stores (snd (Reconcile (mockReconciler multiFactory) ''creds'' routedWorld)) ''critical/secret'')
          ?p = Some ?data"
  proof -
    let ?R = "mockReconciler multiFactory"
    let ?W = "routedWorld"
    let ?f = "syncPair ''region'' ''admin'' ''secret123'' (Now ?R)"
    let ?ebs = "filterEnginesByLabels twoEngines (Labels routedSecret)"
    let ?pair1 = "(mockAt ''team-a/secret'', defaultTemplate, Some ''team-a'', ?B)"
    let ?be = "mockAt ''critical/secret''"
    let ?lb = "?f (startLoop ?W) ?pair1"
    let ?la = "?f ?lb (?be, defaultTemplate, Some ''critical'', ?B)"
    note loop_defs = syncPair_apply syncBMC_def needsUpdate_def mockAt_def startLoop_def routedWorld_def
      exampleWorld_def freshStores_def NewMockBackend_def defaultTemplate_def exampleBMC_def
      ExtractRegionFromBMC_def GetHostnameFromBMC_def mockReconciler_def Let_def
    have found: "getBMCSecret (cluster ?W) ''creds'' = Found routedSecret"
      by (simp add: getBMCSecret_def getByName_def routedWorld_def exampleWorld_def routedSecret_def
            exampleSecret_def)
    have label: "GetSyncLabel (BackendFactory ?R) = Inr []"
      by (simp add: mockReconciler_def multiFactory_def)
    have labelled: "([] :: string) = [] \<or> (\<exists>ls. Labels routedSecret = Some ls \<and> index ls [] \<noteq> [])"
      by simp
    have live: "DeletionTimestamp routedSecret = None"
      by (simp add: routedSecret_def exampleSecret_def)
    have fin: "ContainsFinalizer routedSecret bmcSecretFinalizer \<or> clientErr (cluster ?W) UpdateBMCSecret = None"
      by (simp add: routedWorld_def exampleWorld_def)
    have list: "clientErr (cluster ?W) ListBMC = None"
      by (simp add: routedWorld_def exampleWorld_def)
    have bmcs: "[?B] = filter (\<lambda>bmc. BMCSecretRef (Spec bmc) = ObjectMeta.Name routedSecret) (bmcList (cluster ?W))"
      by (simp add: routedWorld_def exampleWorld_def routedSecret_def exampleSecret_def exampleBMC_def)
    have creds: "ExtractCredentials ?R (AddFinalizer routedSecret bmcSecretFinalizer) = Inr (''admin'', ''secret123'')"
      by (simp add: mockReconciler_def dataCredentials_def AddFinalizer_def routedSecret_def exampleSecret_def)
    have key: "GetRegionLabelKey (BackendFactory ?R) = Inr ''region''"
      by (simp add: mockReconciler_def multiFactory_def)
    have mode: "(HasMultiEngineConfig (BackendFactory ?R) = Inr False
                 \<and> GetBackend (BackendFactory ?R) = Inr (mockAt ''secret'')
                 \<and> GetPathBuilder (BackendFactory ?R) = Inr defaultTemplate
                 \<and> multiEnginePairs ?ebs [?B] = singleEnginePairs (mockAt ''secret'') defaultTemplate [?B])
             \<or> (HasMultiEngineConfig (BackendFactory ?R) = Inr True
                 \<and> GetEngineBackends (BackendFactory ?R) (Labels routedSecret) = Inr ?ebs
                 \<and> multiEnginePairs ?ebs [?B] = multiEnginePairs ?ebs [?B])"
      by (simp add: mockReconciler_def multiFactory_def)
    have split: "multiEnginePairs ?ebs [?B] = [?pair1] @ (?be, defaultTemplate, Some ''critical'', ?B) # []"
      by (simp add: multiEnginePairs_def filterEnginesByLabels_def twoEngines_def MatchesLabels_def
            parseSyncLabel_def SplitN2_def index_def routedSecret_def exampleSecret_def)
    have path: "defaultTemplate (pathVariables ''region'' ''admin'' ?B) = Inr ?p"
      by (simp add: defaultTemplate_def pathVariables_def exampleBMC_def ExtractRegionFromBMC_def
            GetHostnameFromBMC_def)
    have lb: "?lb = foldl ?f (startLoop ?W) [?pair1]"
      by simp
    have la: "?la = ?f ?lb (?be, defaultTemplate, Some ''critical'', ?B)"
      by simp
    have lf: "?la = foldl ?f ?la []"
      by simp
    have before: "calls (world ?lb) = [ExistsCall ?p (Inr False), WriteCall ?p ?data None]"
        "secrets (stores (world ?lb) ''critical/secret'') ?p = None"
        "WriteError (stores (world ?lb) ''critical/secret'') = None"
        "SecretExistsError (stores (world ?lb) ''critical/secret'') = None"
      by (simp_all add: loop_defs)
    have ex: "SecretExists ?be ?p (stores (world ?lb)) = (Inr False, stores (world ?lb))"
      using before(2,4) by (simp add: mockAt_def)
    have rd: "ReadSecret ?be ?p (stores (world ?lb))
                = (fst (ReadSecret ?be ?p (stores (world ?lb))), snd (ReadSecret ?be ?p (stores (world ?lb))))"
      by simp
    have wr: "WriteSecret ?be ?p ?data
                (if (Inr False :: error + bool) = Inr False then stores (world ?lb)
                 else snd (ReadSecret ?be ?p (stores (world ?lb))))
                = (None, snd (WriteSecret ?be ?p ?data (stores (world ?lb))))"
      using before(3) by (simp add: mockAt_def)
    have run: "Reconcile ?R ''creds'' ?W = (fst (Reconcile ?R ''creds'' ?W), snd (Reconcile ?R ''creds'' ?W))"
      by simp
    have cs: "callsSince ?W (world ?lb) = [ExistsCall ?p (Inr False), WriteCall ?p ?data None]"
        "callsSince (world ?la) (world ?la) = []"
      using before(1) by (simp_all add: callsSince_def routedWorld_def exampleWorld_def)
    have st: "secrets (snd (WriteSecret ?be ?p ?data (stores (world ?lb))) ''critical/secret'') ?p = Some ?data"
      using before(3) by (simp add: mockAt_def)
    note t = Reconcile_writes_iff_needed [OF found label labelled live fin list bmcs creds key mode
                split path lb la lf ex rd wr run]
    from t cs st show ?thesis
      by simp
  qed
  from inst [of "''old''"] inst [of "''secret123''"] s multi
  show ?thesis
    by (simp add: credentials_def)
qed

subsection \<open>Deletion\<close>

text \<open>
  The deletion loop issues one delete call for each device whose path renders, to that
  path and in order, whatever the calls return, and nothing else; it leaves the store
  as those deletes, applied in turn, left it.
\<close>
lemma deleteSecrets_loop:
  "\<exists>new. calls (deleteSecrets be pb regionLabelKey username bmcs w) = calls w @ new
     \<and> cluster (deleteSecrets be pb regionLabelKey username bmcs w) = cluster w
     \<and> (\<forall>c \<in> set new. isDelete c)
     \<and> map callPath new = renderedPaths pb regionLabelKey username bmcs
     \<and> stores (deleteSecrets be pb regionLabelKey username bmcs w)
         = foldl (\<lambda>s path. snd (DeleteSecret be path s)) (stores w)
             (renderedPaths pb regionLabelKey username bmcs)"
proof (induction bmcs arbitrary: w)
  case Nil
  then show ?case by simp
next
  case (Cons bmc bmcs)
  let ?vars = "\<lparr>PathVariables.Region = ExtractRegionFromBMC bmc regionLabelKey,
                 PathVariables.Hostname = GetHostnameFromBMC bmc,
                 PathVariables.Username = username\<rparr>"
  show ?case
  proof (cases "pb ?vars")
    case (Inl err)
    with Cons.IH [of w] show ?thesis
      by (simp add: pathVariables_def)
  next
    case (Inr path)
    obtain res s1 where d: "DeleteSecret be path (stores w) = (res, s1)"
      by (cases "DeleteSecret be path (stores w)") auto
    let ?w1 = "w\<lparr>stores := s1, calls := calls w @ [DeleteCall path res]\<rparr>"
    obtain new where n: "calls (deleteSecrets be pb regionLabelKey username bmcs ?w1) = calls ?w1 @ new"
        "cluster (deleteSecrets be pb regionLabelKey username bmcs ?w1) = cluster ?w1"
        "\<forall>c \<in> set new. isDelete c"
        "map callPath new = renderedPaths pb regionLabelKey username bmcs"
        "stores (deleteSecrets be pb regionLabelKey username bmcs ?w1)
           = foldl (\<lambda>s path. snd (DeleteSecret be path s)) (stores ?w1)
               (renderedPaths pb regionLabelKey username bmcs)"
      using Cons.IH [of ?w1] by blast
    show ?thesis
      using Inr d n
      by (intro exI [of _ "DeleteCall path res # new"]) (simp add: pathVariables_def)
  qed
qed

text \<open>When the registry accepts the update, the stored record loses the finalizer.\<close>
lemma removeFinalizerAndUpdate_clears:
  assumes "clientErr (cluster w) UpdateBMCSecret = None"
    and "getByName (bmcSecrets (cluster w)) (ObjectMeta.Name bmcSecret) = Some old"
  shows "removeFinalizerAndUpdate bmcSecret w =
           ((\<lparr>RequeueAfter = 0\<rparr>, None),
            w\<lparr>cluster := (cluster w)\<lparr>bmcSecrets :=
                 putByName (RemoveFinalizer bmcSecret bmcSecretFinalizer) (bmcSecrets (cluster w))\<rparr>\<rparr>)"
    and "getByName (putByName (RemoveFinalizer bmcSecret bmcSecretFinalizer) (bmcSecrets (cluster w)))
           (ObjectMeta.Name bmcSecret) = Some (RemoveFinalizer bmcSecret bmcSecretFinalizer)"
proof -
  let ?obj = "RemoveFinalizer bmcSecret bmcSecretFinalizer"
  have n: "ObjectMeta.Name ?obj = ObjectMeta.Name bmcSecret"
    by (simp add: RemoveFinalizer_def)
  show "getByName (putByName ?obj (bmcSecrets (cluster w))) (ObjectMeta.Name bmcSecret) = Some ?obj"
    using getByName_putByName [of "bmcSecrets (cluster w)" ?obj old] assms(2) n by simp
  show "removeFinalizerAndUpdate bmcSecret w =
           ((\<lparr>RequeueAfter = 0\<rparr>, None),
            w\<lparr>cluster := (cluster w)\<lparr>bmcSecrets := putByName ?obj (bmcSecrets (cluster w))\<rparr>\<rparr>)"
    using assms n by (simp add: removeFinalizerAndUpdate_def updateBMCSecret_def)
qed

text \<open>
  What deletion handling does on the default store. For a record of the registry with
  the finalizer set, when the registry accepts the requests of the pass (reading and
  deleting the status record, listing the devices, updating the record): it issues one
  delete call per device whose secret reference names the record and whose path renders
  under the default template, to that path, whether or not a delete call fails, and no
  other store call, and leaves the stores as those deletes left them; the status record
  is gone afterwards and the stored record has no finalizer. When the backend, the path
  builder, the region label key or the credentials cannot be had, no delete call is
  issued and the finalizer is removed all the same.
\<close>
lemma handleDeletion_default_store:
  fixes w :: "'s World"
  assumes "ContainsFinalizer bmcSecret bmcSecretFinalizer"
    and "getByName (bmcSecrets (cluster w)) (ObjectMeta.Name bmcSecret) = Some old"
    and "clientErr (cluster w) UpdateBMCSecret = None"
    and "clientErr (cluster w) GetSyncStatus = None"
    and "clientErr (cluster w) DeleteSyncStatus = None"
    and "clientErr (cluster w) ListBMC = None"
    and "handleDeletion r bmcSecret w = (res, w')"
  shows "res = (\<lparr>RequeueAfter = 0\<rparr>, None)
       \<and> (\<exists>obj. getByName (bmcSecrets (cluster w')) (ObjectMeta.Name bmcSecret) = Some obj
             \<and> bmcSecretFinalizer \<notin> set (Finalizers obj))
       \<and> getByName (syncStatuses (cluster w')) (ObjectMeta.Name bmcSecret @ ''-sync-status'') = None
       \<and> (\<forall>c \<in> set (callsSince w w'). isDelete c)
       \<and> map callPath (callsSince w w') = deletionPaths r bmcSecret (cluster w)
       \<and> stores w' =
           (case GetBackend (BackendFactory r) of
              Inl err \<Rightarrow> stores w
            | Inr be \<Rightarrow> foldl (\<lambda>s path. snd (DeleteSecret be path s)) (stores w)
                          (deletionPaths r bmcSecret (cluster w)))"
proof -
  let ?key = "ObjectMeta.Name bmcSecret @ ''-sync-status''"
  let ?w1 = "case getSyncStatus (cluster w) ?key of
               Found syncStatus \<Rightarrow> w\<lparr>cluster := snd (deleteSyncStatus (cluster w) syncStatus)\<rparr>
             | _ \<Rightarrow> w"
  let ?after = "case GetBackend (BackendFactory r) of
              Inl err \<Rightarrow> stores w
            | Inr be \<Rightarrow> foldl (\<lambda>s path. snd (DeleteSecret be path s)) (stores w)
                          (deletionPaths r bmcSecret (cluster w))"
  have w1: "getByName (syncStatuses (cluster ?w1)) ?key = None
          \<and> bmcSecrets (cluster ?w1) = bmcSecrets (cluster w)
          \<and> bmcList (cluster ?w1) = bmcList (cluster w)
          \<and> clientErr (cluster ?w1) = clientErr (cluster w)
          \<and> calls ?w1 = calls w \<and> stores ?w1 = stores w"
  proof (cases "getByName (syncStatuses (cluster w)) ?key")
    case None
    with assms(4) show ?thesis by (simp add: getSyncStatus_def)
  next
    case (Some st)
    have "ObjectMeta.Name st = ?key" using getByName_name [OF Some] .
    with Some assms(4,5) show ?thesis
      by (simp add: getSyncStatus_def deleteSyncStatus_def getByName_removeByName)
  qed
  have fin: "bmcSecretFinalizer \<notin> set (Finalizers (RemoveFinalizer bmcSecret bmcSecretFinalizer))"
    by (simp add: RemoveFinalizer_def)
  have rem: "removeFinalizerAndUpdate bmcSecret v =
           ((\<lparr>RequeueAfter = 0\<rparr>, None),
            v\<lparr>cluster := (cluster v)\<lparr>bmcSecrets :=
                 putByName (RemoveFinalizer bmcSecret bmcSecretFinalizer) (bmcSecrets (cluster w))\<rparr>\<rparr>)"
    if "cluster v = cluster ?w1" for v :: "'s World"
    using removeFinalizerAndUpdate_clears(1) [of v bmcSecret old] that w1 assms(2,3) by simp
  note put = removeFinalizerAndUpdate_clears(2) [OF assms(3) assms(2)]
  have "\<exists>v. cluster v = cluster ?w1 \<and> (\<exists>new. calls v = calls w @ new \<and> (\<forall>c \<in> set new. isDelete c)
            \<and> map callPath new = deletionPaths r bmcSecret (cluster w))
          \<and> stores v = ?after
          \<and> handleDeletion r bmcSecret w = removeFinalizerAndUpdate bmcSecret v"
  proof (cases "GetBackend (BackendFactory r)")
    case (Inl err)
    then show ?thesis
      using assms(1) w1
      by (intro exI [of _ "Event ''Warning'' ''CleanupFailed'' ?w1"])
         (simp add: handleDeletion_def deletionPaths_def Event_def Let_def)
  next
    case be: (Inr be)
    show ?thesis
    proof (cases "GetPathBuilder (BackendFactory r)")
      case (Inl err)
      then show ?thesis
        using assms(1) w1 be
        by (intro exI [of _ ?w1]) (simp add: handleDeletion_def deletionPaths_def Let_def)
    next
      case pb: (Inr pb)
      show ?thesis
      proof (cases "GetRegionLabelKey (BackendFactory r)")
        case (Inl err)
        then show ?thesis
          using assms(1) w1 be pb
          by (intro exI [of _ ?w1]) (simp add: handleDeletion_def deletionPaths_def Let_def)
      next
        case key: (Inr regionLabelKey)
        show ?thesis
        proof (cases "ExtractCredentials r bmcSecret")
          case (Inl err)
          then show ?thesis
            using assms(1) w1 be pb key
            by (intro exI [of _ ?w1]) (simp add: handleDeletion_def deletionPaths_def Let_def)
        next
          case (Inr cred)
          obtain username password where cred: "cred = (username, password)"
            by (cases cred) auto
          let ?bmcs = "filter (\<lambda>bmc. BMCSecretRef (Spec bmc) = ObjectMeta.Name bmcSecret) (bmcList (cluster w))"
          have find: "FindBMCsForSecret (cluster ?w1) (ObjectMeta.Name bmcSecret) = Inr ?bmcs"
            using w1 assms(6) by (simp add: FindBMCsForSecret_def)
          let ?v = "deleteSecrets be pb regionLabelKey username ?bmcs ?w1"
          obtain new where n: "calls ?v = calls ?w1 @ new" "cluster ?v = cluster ?w1"
              "\<forall>c \<in> set new. isDelete c"
              "map callPath new = renderedPaths pb regionLabelKey username ?bmcs"
              "stores ?v = foldl (\<lambda>s path. snd (DeleteSecret be path s)) (stores ?w1)
                             (renderedPaths pb regionLabelKey username ?bmcs)"
            using deleteSecrets_loop [of be pb regionLabelKey username ?bmcs ?w1] by blast
          have dp: "deletionPaths r bmcSecret (cluster w) = renderedPaths pb regionLabelKey username ?bmcs"
            using be pb key Inr cred by (simp add: deletionPaths_def)
          have hd: "handleDeletion r bmcSecret w = removeFinalizerAndUpdate bmcSecret ?v"
            using assms(1) be pb key Inr cred find by (simp add: handleDeletion_def Let_def)
          show ?thesis
            using n w1 dp hd be by (intro exI [of _ ?v]) simp
        qed
      qed
    qed
  qed
  then obtain v new where v: "cluster v = cluster ?w1" "calls v = calls w @ new"
      "\<forall>c \<in> set new. isDelete c" "map callPath new = deletionPaths r bmcSecret (cluster w)"
      "stores v = ?after"
      "handleDeletion r bmcSecret w = removeFinalizerAndUpdate bmcSecret v"
    by blast
  have res: "res = (\<lparr>RequeueAfter = 0\<rparr>, None)"
    and w': "w' = v\<lparr>cluster := (cluster v)\<lparr>bmcSecrets :=
                 putByName (RemoveFinalizer bmcSecret bmcSecretFinalizer) (bmcSecrets (cluster w))\<rparr>\<rparr>"
    using assms(7) v(6) rem [OF v(1)] by simp_all
  have cs: "callsSince w w' = new"
    using w' v(2) by (simp add: callsSince_def)
  have st: "stores w' = ?after"
    using w' v(5) by simp
  show ?thesis
    using res w' cs st v(1,3,4) w1 put fin by simp
qed

text \<open>
  At a record referenced by two devices, on a store that rejects every delete: two
  delete calls, and the finalizer is cleared.
\<close>
lemma handleDeletion_default_store_example:
  "map callPath (callsSince deletingTwo
      (snd (handleDeletion (mockReconciler (mockFactory []))
              (exampleSecret None (Some 2000) [bmcSecretFinalizer]) deletingTwo)))
     = [''bmc/eu/host1/admin'', ''bmc/us/host2/admin'']
   \<and> (\<exists>obj. getByName (bmcSecrets (cluster
          (snd (handleDeletion (mockReconciler (mockFactory []))
                  (exampleSecret None (Some 2000) [bmcSecretFinalizer]) deletingTwo)))) ''creds''
          = Some obj \<and> bmcSecretFinalizer \<notin> set (Finalizers obj))"
proof -
  let ?r = "mockReconciler (mockFactory [])"
  let ?s = "exampleSecret None (Some 2000) [bmcSecretFinalizer]"
  let ?run = "handleDeletion ?r ?s deletingTwo"
  have f: "ContainsFinalizer ?s bmcSecretFinalizer"
    by (simp add: ContainsFinalizer_def exampleSecret_def)
  have g: "getByName (bmcSecrets (cluster deletingTwo)) (ObjectMeta.Name ?s) = Some ?s"
    by (simp add: getByName_def deletingTwo_def exampleWorld_def exampleSecret_def)
  have c: "clientErr (cluster deletingTwo) UpdateBMCSecret = None"
      "clientErr (cluster deletingTwo) GetSyncStatus = None"
      "clientErr (cluster deletingTwo) DeleteSyncStatus = None"
      "clientErr (cluster deletingTwo) ListBMC = None"
    by (simp_all add: deletingTwo_def exampleWorld_def)
  have run: "?run = (fst ?run, snd ?run)" by simp
  have n: "ObjectMeta.Name ?s = ''creds''"
    by (simp add: exampleSecret_def)
  have p: "deletionPaths ?r ?s (cluster deletingTwo) = [''bmc/eu/host1/admin'', ''bmc/us/host2/admin'']"
    by (simp add: deletionPaths_def mockReconciler_def mockFactory_def dataCredentials_def
          exampleSecret_def deletingTwo_def exampleWorld_def twoBMCs_def
          exampleBMC_def pathVariables_def defaultTemplate_def ExtractRegionFromBMC_def
          GetHostnameFromBMC_def)
  from handleDeletion_default_store [OF f g c run] n p
  show ?thesis by simp
qed

text \<open>The definitions that evaluating a pass on the example worlds unfolds.\<close>
lemmas example_defs = Reconcile_def reconcileMultiEngine_def reconcileSingleEngine_def handleDeletion_def
  removeFinalizerAndUpdate_def updateSyncStatus_def syncedCondition_def
  getBMCSecret_def updateBMCSecret_def getSyncStatus_def createSyncStatus_def
  updateSyncStatusStatus_def deleteSyncStatus_def FindBMCsForSecret_def getByName_def putByName_def
  removeByName_def ContainsFinalizer_def AddFinalizer_def RemoveFinalizer_def
  syncBMC_def needsUpdate_def Event_def callsSince_def
  mockReconciler_def mockFactory_def multiFactory_def twoEngines_def filterEnginesByLabels_def
  MatchesLabels_def parseSyncLabel_def SplitN2_def index_def dataCredentials_def
  exampleWorld_def exampleSecret_def routedSecret_def routedWorld_def exampleBMC_def freshStores_def
  NewMockBackend_def mockAt_def defaultTemplate_def ExtractRegionFromBMC_def GetHostnameFromBMC_def
  bmcSecretFinalizer_def requeueAfterNormal_def requeueAfterError_def credentials_def Let_def

text \<open>
  Claim C2. With engine bindings configured the claim fails, at the record of the
  documentation that two engines match, referenced by one device. Its sync pass writes
  the credentials to the store of either engine, and nothing to the default store, and
  the status record it persists counts two paths. Once the record is marked deleted,
  deletion handling issues a single delete call, to the default store; it removes the
  status record and clears the finalizer, and the store of either engine still holds
  the credentials.
\<close>
theorem handleDeletion_leaves_engine_secrets:
  "callsSince routedWorld syncedWorld
     = [ExistsCall ''bmc/eu/host1/admin'' (Inr False),
        WriteCall ''bmc/eu/host1/admin'' (credentials ''admin'' ''secret123'') None,
        ExistsCall ''bmc/eu/host1/admin'' (Inr False),
        WriteCall ''bmc/eu/host1/admin'' (credentials ''admin'' ''secret123'') None]
   \<and> secrets (stores syncedWorld ''team-a/secret'') ''bmc/eu/host1/admin''
        = Some (credentials ''admin'' ''secret123'')
   \<and> secrets (stores syncedWorld ''critical/secret'') ''bmc/eu/host1/admin''
        = Some (credentials ''admin'' ''secret123'')
   \<and> secrets (stores syncedWorld ''secret'') ''bmc/eu/host1/admin'' = None
   \<and> map (TotalPaths \<circ> Status) (syncStatuses (cluster syncedWorld)) = [2]
   \<and> map Finalizers (bmcSecrets (cluster syncedWorld)) = [[bmcSecretFinalizer]]
   \<and> callsSince (markDeleted 2000 syncedWorld) deletedWorld = [DeleteCall ''bmc/eu/host1/admin'' None]
   \<and> stores deletedWorld = snd (DeleteSecret (mockAt ''secret'') ''bmc/eu/host1/admin'' (stores syncedWorld))
   \<and> secrets (stores deletedWorld ''team-a/secret'') ''bmc/eu/host1/admin''
        = Some (credentials ''admin'' ''secret123'')
   \<and> secrets (stores deletedWorld ''critical/secret'') ''bmc/eu/host1/admin''
        = Some (credentials ''admin'' ''secret123'')
   \<and> syncStatuses (cluster deletedWorld) = []
   \<and> map Finalizers (bmcSecrets (cluster deletedWorld)) = [[]]"
  by (simp add: deletedWorld_def markDeleted_def syncedWorld_def example_defs)

end
